theory Spec2Isabelle
  imports Complex_Main
begin

section \<open>Python values and exceptions\<close>

text \<open>
  A Python float: a finite value (kept exact), NaN or an infinity.
\<close>

datatype pyfloat = Finite rat | NaN | PosInf | NegInf

text \<open>
  The values that occur in a parsed document tree: \<open>None\<close>, booleans, integers, floats,
  strings, lists and mappings (an association list; lookup takes the first binding of a key).
\<close>

datatype pyval =
    PNone
  | PBool bool
  | PInt int
  | PFloat pyfloat
  | PStr string
  | PList "pyval list"
  | PDict "(string \<times> pyval) list"

text \<open>
  The exceptions of the source and of the host libraries (all of them subclasses of
  \<open>Exception\<close>), each carrying its message where the source gives one. \<open>Unmodelled\<close>
  marks an input on which the embedding does not follow the interpreter (it says where).
\<close>

datatype error =
    ValueError string
  | TypeError string
  | IndexError
  | KeyError string
  | AttributeError string
  | ZeroDivisionError
  | OverflowError
  | OSError string
  | RuntimeError string
  | ValidationError string
  | MaskError
  | Unmodelled string

text \<open>The wildcard marker of a shape, the string \<open>"*"\<close>.\<close>

definition star :: pyval where
  "star = PStr ''*''"

section \<open>Native element types\<close>

text \<open>The two values of \<open>sys.byteorder\<close>, as strings \<open>"little"\<close> and \<open>"big"\<close>.\<close>

datatype endian = Little | Big

fun byteorder_name :: "endian \<Rightarrow> string" where
  "byteorder_name Little = ''little''"
| "byteorder_name Big = ''big''"

text \<open>The scalar kinds of the table \<open>_datatype_names\<close>.\<close>

datatype kind =
    Int8 | Int16 | Int32 | Int64
  | UInt8 | UInt16 | UInt32 | UInt64
  | Float32 | Float64 | Complex64 | Complex128
  | Bool

fun kind_name :: "kind \<Rightarrow> string" where
  "kind_name Int8 = ''int8''"
| "kind_name Int16 = ''int16''"
| "kind_name Int32 = ''int32''"
| "kind_name Int64 = ''int64''"
| "kind_name UInt8 = ''uint8''"
| "kind_name UInt16 = ''uint16''"
| "kind_name UInt32 = ''uint32''"
| "kind_name UInt64 = ''uint64''"
| "kind_name Float32 = ''float32''"
| "kind_name Float64 = ''float64''"
| "kind_name Complex64 = ''complex64''"
| "kind_name Complex128 = ''complex128''"
| "kind_name Bool = ''bool''"

fun kind_size :: "kind \<Rightarrow> nat" where
  "kind_size Int8 = 1"
| "kind_size Int16 = 2"
| "kind_size Int32 = 4"
| "kind_size Int64 = 8"
| "kind_size UInt8 = 1"
| "kind_size UInt16 = 2"
| "kind_size UInt32 = 4"
| "kind_size UInt64 = 8"
| "kind_size Float32 = 4"
| "kind_size Float64 = 8"
| "kind_size Complex64 = 8"
| "kind_size Complex128 = 16"
| "kind_size Bool = 1"

text \<open>
  A numpy element type, up to numpy's equality of dtypes. The byte order is kept resolved
  (\<open>None\<close> is numpy's \<open>'|'\<close>, not applicable), so that the native order \<open>'='\<close> and the explicit
  order of the platform are the same value. A record lists its fields in order, packed; a
  field of a record may be a subarray type \<open>DSub base shape\<close>. \<open>DOther name itemsize\<close>
  stands for every other dtype (float16, datetime64, object, ...).
\<close>

datatype np_dtype =
    DScalar kind "endian option"
  | DBytes nat
  | DUnicode nat "endian option"
  | DRecord "(string \<times> np_dtype) list"
  | DSub np_dtype "nat list"
  | DOther string nat

text \<open>Decimal digits of a natural number, as \<open>str\<close> prints it.\<close>

function digits :: "nat \<Rightarrow> string" where
  "digits n =
     (if n < 10 then [''0123456789'' ! n]
      else digits (n div 10) @ [''0123456789'' ! (n mod 10)])"
  by pat_completeness auto
termination
  by (relation "measure id") auto

declare digits.simps [simp del]

text \<open>The attributes of a dtype that the source reads.\<close>

fun itemsize :: "np_dtype \<Rightarrow> nat"
  and fields_size :: "(string \<times> np_dtype) list \<Rightarrow> nat" where
  "itemsize (DScalar k bo) = kind_size k"
| "itemsize (DBytes n) = n"
| "itemsize (DUnicode n bo) = 4 * n"
| "itemsize (DRecord fs) = fields_size fs"
| "itemsize (DSub base shp) = prod_list shp * itemsize base"
| "itemsize (DOther nm sz) = sz"
| "fields_size [] = 0"
| "fields_size (f # fs) = itemsize (snd f) + fields_size fs"

definition bit_suffix :: "nat \<Rightarrow> string" where
  "bit_suffix n = (if n = 0 then [] else digits (8 * n))"

fun dtype_name :: "np_dtype \<Rightarrow> string" where
  "dtype_name (DScalar k bo) = kind_name k"
| "dtype_name (DBytes n) = ''bytes'' @ bit_suffix n"
| "dtype_name (DUnicode n bo) = ''str'' @ bit_suffix (4 * n)"
| "dtype_name (DOther nm sz) = nm"
| "dtype_name dt = ''void'' @ bit_suffix (itemsize dt)"

text \<open>
  \<open>dtype.byteorder\<close>: \<open>'='\<close> for the order of the platform, \<open>'<'\<close> or \<open>'>'\<close> for the other
  one, \<open>'|'\<close> where no order applies.
\<close>

definition order_char :: "endian \<Rightarrow> endian option \<Rightarrow> char" where
  "order_char sys bo =
     (case bo of
        None \<Rightarrow> CHR ''|''
      | Some e \<Rightarrow> if e = sys then CHR ''='' else if e = Little then CHR ''<'' else CHR ''>'')"

fun dtype_byteorder :: "endian \<Rightarrow> np_dtype \<Rightarrow> char" where
  "dtype_byteorder sys (DScalar k bo) = order_char sys bo"
| "dtype_byteorder sys (DUnicode n bo) = order_char sys bo"
| "dtype_byteorder sys dt = CHR ''|''"

fun dtype_shape :: "np_dtype \<Rightarrow> nat list" where
  "dtype_shape (DSub base shp) = shp"
| "dtype_shape dt = []"

text \<open>
  \<open>np.dtype\<close> of a type string: a byte-order character followed by one of the codes of
  \<open>_datatype_names\<close>. A one-byte kind has no byte order.
\<close>

definition numpy_codes :: "(string \<times> kind) list" where
  "numpy_codes =
     [(''i1'', Int8), (''i2'', Int16), (''i4'', Int32), (''i8'', Int64),
      (''u1'', UInt8), (''u2'', UInt16), (''u4'', UInt32), (''u8'', UInt64),
      (''f4'', Float32), (''f8'', Float64), (''c8'', Complex64), (''c16'', Complex128),
      (''b1'', Bool)]"

definition endian_of_char :: "char \<Rightarrow> endian" where
  "endian_of_char c = (if c = CHR ''<'' then Little else Big)"

definition np_dtype_scalar :: "char \<Rightarrow> string \<Rightarrow> error + np_dtype" where
  "np_dtype_scalar bo code =
     (case map_of numpy_codes code of
        None \<Rightarrow> Inl (TypeError ''data type not understood'')
      | Some k \<Rightarrow> Inr (DScalar k (if kind_size k = 1 then None else Some (endian_of_char bo))))"

text \<open>
  \<open>np.dtype\<close> of a byte-order character, \<open>S\<close> or \<open>U\<close>, and \<open>str(length)\<close>. The length has
  passed \<open>isinstance(_, int)\<close>: an integer, or a boolean, whose \<open>str\<close> is not a number.
\<close>

definition np_dtype_flexible :: "char \<Rightarrow> char \<Rightarrow> pyval \<Rightarrow> error + np_dtype" where
  "np_dtype_flexible bo tc len =
     (case len of
        PInt n \<Rightarrow>
          if n < 0 then Inl (TypeError ''data type not understood'')
          else if tc = CHR ''S'' then Inr (DBytes (nat n))
          else Inr (DUnicode (nat n) (Some (endian_of_char bo)))
      | _ \<Rightarrow> Inl (TypeError ''data type not understood''))"

text \<open>
  \<open>np.dtype\<close> of a list of field tuples \<open>(name, dtype)\<close> or \<open>(name, dtype, shape)\<close>. An empty
  name becomes \<open>f\<close> followed by the position of the field, a name may occur once, and a shape
  makes the field a subarray (the empty shape does not; the shape of a subarray of a subarray
  is the concatenation).
\<close>

definition np_subarray :: "np_dtype \<Rightarrow> nat list \<Rightarrow> np_dtype" where
  "np_subarray dt shp =
     (if shp = [] then dt
      else case dt of DSub base inner \<Rightarrow> DSub base (shp @ inner) | _ \<Rightarrow> DSub dt shp)"

fun shape_entries :: "pyval list \<Rightarrow> error + nat list" where
  "shape_entries [] = Inr []"
| "shape_entries (PInt n # xs) =
     (if n < 0 then Inl (ValueError ''invalid shape in fixed-type tuple'')
      else case shape_entries xs of Inl e \<Rightarrow> Inl e | Inr ns \<Rightarrow> Inr (nat n # ns))"
| "shape_entries (_ # xs) = Inl (ValueError ''invalid shape in fixed-type tuple'')"

text \<open>
  What \<open>asdf_datatype_to_numpy_dtype\<close> returns: a dtype, or for a field entry the tuple
  \<open>(name, dtype)\<close> or \<open>(name, dtype, shape)\<close>, whose second component is again such a result.
\<close>

datatype np_result =
    RDtype np_dtype
  | RTuple string np_result "pyval list option"

fun field_entries :: "nat \<Rightarrow> np_result list \<Rightarrow> error + (string \<times> np_dtype) list" where
  "field_entries i [] = Inr []"
| "field_entries i (RTuple name (RDtype dt) shp # rs) =
     (case (case shp of None \<Rightarrow> Inr [] | Some s \<Rightarrow> shape_entries s) of
        Inl e \<Rightarrow> Inl e
      | Inr ns \<Rightarrow>
          (case field_entries (Suc i) rs of
             Inl e \<Rightarrow> Inl e
           | Inr fs \<Rightarrow> Inr ((if name = [] then ''f'' @ digits i else name, np_subarray dt ns) # fs)))"
| "field_entries i (_ # rs) = Inl (TypeError ''data type not understood'')"

definition np_dtype_fields :: "np_result list \<Rightarrow> error + np_dtype" where
  "np_dtype_fields rs =
     (case field_entries 0 rs of
        Inl e \<Rightarrow> Inl e
      | Inr fs \<Rightarrow>
          if distinct (map fst fs) then Inr (DRecord fs)
          else Inl (ValueError ''field occurs more than once''))"


section \<open>Type-descriptor codec\<close>

text \<open>The tables \<open>_datatype_names\<close> and \<open>_string_datatype_names\<close>.\<close>

definition datatype_names :: "(string \<times> string) list" where
  "datatype_names =
     [(''int8'', ''i1''), (''int16'', ''i2''), (''int32'', ''i4''), (''int64'', ''i8''),
      (''uint8'', ''u1''), (''uint16'', ''u2''), (''uint32'', ''u4''), (''uint64'', ''u8''),
      (''float32'', ''f4''), (''float64'', ''f8''), (''complex64'', ''c8''),
      (''complex128'', ''c16''), (''bool8'', ''b1'')]"

definition string_datatype_names :: "(string \<times> char) list" where
  "string_datatype_names = [(''ascii'', CHR ''S''), (''ucs4'', CHR ''U'')]"

definition asdf_byteorder_to_numpy_byteorder :: "pyval \<Rightarrow> error + char" where
  "asdf_byteorder_to_numpy_byteorder byteorder =
     (if byteorder = PStr ''big'' then Inr (CHR ''>'')
      else if byteorder = PStr ''little'' then Inr (CHR ''<'')
      else Inl (ValueError ''Invalid ASDF byteorder''))"

text \<open>
  \<open>tuple(x)\<close>, \<open>str(x)\<close> and \<open>isinstance(x, int)\<close> on tree values. \<open>str\<close> of a float or of a
  container is not spelled out.
\<close>

fun py_tuple :: "pyval \<Rightarrow> error + pyval list" where
  "py_tuple (PList xs) = Inr xs"
| "py_tuple (PStr s) = Inr (map (\<lambda>c. PStr [c]) s)"
| "py_tuple (PDict kvs) = Inr (map (\<lambda>kv. PStr (fst kv)) kvs)"
| "py_tuple _ = Inl (TypeError ''object is not iterable'')"

fun py_str :: "pyval \<Rightarrow> error + string" where
  "py_str (PStr s) = Inr s"
| "py_str PNone = Inr ''None''"
| "py_str (PBool b) = Inr (if b then ''True'' else ''False'')"
| "py_str (PInt n) = Inr (if n < 0 then ''-'' @ digits (nat (- n)) else digits (nat n))"
| "py_str _ = Inl (Unmodelled ''str of a float or a container'')"

fun is_int :: "pyval \<Rightarrow> bool" where
  "is_int (PInt n) = True"
| "is_int (PBool b) = True"
| "is_int _ = False"

text \<open>A value looked up in a mapping is smaller than the mapping.\<close>

lemma size_map_of: "map_of kvs k = Some v \<Longrightarrow> size v < Suc (size_list (size_prod (\<lambda>_. 0) size) kvs)"
  by (induction kvs) (auto split: if_splits)

text \<open>
  \<open>asdf_datatype_to_numpy_dtype(datatype, byteorder)\<close>, with \<open>sys.byteorder\<close> as a parameter.
  \<open>datatype_list\<close> is the loop over the entries of a record descriptor.
\<close>

definition default_byteorder :: "endian \<Rightarrow> pyval \<Rightarrow> pyval" where
  "default_byteorder sys byteorder = (if byteorder = PNone then PStr (byteorder_name sys) else byteorder)"

fun is_string_descriptor :: "pyval list \<Rightarrow> bool" where
  "is_string_descriptor [PStr cs, len] = (is_int len \<and> map_of string_datatype_names cs \<noteq> None)"
| "is_string_descriptor _ = False"

function (sequential)
   asdf_datatype_to_numpy_dtype :: "endian \<Rightarrow> pyval \<Rightarrow> pyval \<Rightarrow> error + np_result"
  and datatype_list :: "endian \<Rightarrow> pyval list \<Rightarrow> pyval \<Rightarrow> error + np_result list" where
  "asdf_datatype_to_numpy_dtype sys (PStr nm) byteorder =
     (case map_of datatype_names nm of
        Some code \<Rightarrow>
          (case asdf_byteorder_to_numpy_byteorder (default_byteorder sys byteorder) of
             Inl e \<Rightarrow> Inl e
           | Inr bo \<Rightarrow> map_sum id RDtype (np_dtype_scalar bo code))
      | None \<Rightarrow> Inl (ValueError ''Unknown datatype''))"
| "asdf_datatype_to_numpy_dtype sys (PList xs) byteorder =
     (if is_string_descriptor xs then
        (case asdf_byteorder_to_numpy_byteorder (default_byteorder sys byteorder) of
           Inl e \<Rightarrow> Inl e
         | Inr bo \<Rightarrow>
             (case hd xs of
                PStr cs \<Rightarrow>
                  map_sum id RDtype
                    (np_dtype_flexible bo (the (map_of string_datatype_names cs)) (xs ! 1))
              | _ \<Rightarrow> Inl (ValueError ''Unknown datatype'')))
      else
        (case datatype_list sys xs (default_byteorder sys byteorder) of
           Inl e \<Rightarrow> Inl e
         | Inr rs \<Rightarrow> map_sum id RDtype (np_dtype_fields rs)))"
| "asdf_datatype_to_numpy_dtype sys (PDict kvs) byteorder =
     (case map_of kvs ''datatype'' of
        None \<Rightarrow> Inl (ValueError ''Field entry has no datatype'')
      | Some sub \<Rightarrow>
          (let name = (case map_of kvs ''name'' of None \<Rightarrow> PStr [] | Some n \<Rightarrow> n);
               byteorder' =
                 (case map_of kvs ''byteorder'' of
                    None \<Rightarrow> default_byteorder sys byteorder
                  | Some b \<Rightarrow> b);
               shape = (case map_of kvs ''shape'' of None \<Rightarrow> PNone | Some s \<Rightarrow> s)
           in case asdf_datatype_to_numpy_dtype sys sub byteorder' of
                Inl e \<Rightarrow> Inl e
              | Inr r \<Rightarrow>
                  (case py_str name of
                     Inl e \<Rightarrow> Inl e
                   | Inr nm \<Rightarrow>
                       if shape = PNone then Inr (RTuple nm r None)
                       else (case py_tuple shape of
                               Inl e \<Rightarrow> Inl e
                             | Inr t \<Rightarrow> Inr (RTuple nm r (Some t))))))"
| "asdf_datatype_to_numpy_dtype sys _ byteorder = Inl (ValueError ''Unknown datatype'')"
| "datatype_list sys [] byteorder = Inr []"
| "datatype_list sys (subdatatype # rest) byteorder =
     (case asdf_datatype_to_numpy_dtype sys subdatatype byteorder of
        Inl e \<Rightarrow> Inl e
      | Inr np_dtype \<Rightarrow>
          (case datatype_list sys rest byteorder of
             Inl e \<Rightarrow> Inl e
           | Inr rs \<Rightarrow>
               Inr ((case np_dtype of
                       RTuple n d s \<Rightarrow> np_dtype
                     | RDtype d \<Rightarrow> RTuple [] np_dtype None) # rs)))"
  by pat_completeness auto
termination
  apply (relation "measure (\<lambda>x. case x of Inl (s, d, b) \<Rightarrow> 2 * size d
                                         | Inr (s, ds, b) \<Rightarrow> 2 * size_list size ds + 1)")
    apply (auto dest: size_map_of)
  done

text \<open>\<open>numpy_byteorder_to_asdf_byteorder(byteorder, override)\<close>.\<close>

definition numpy_byteorder_to_asdf_byteorder :: "endian \<Rightarrow> char \<Rightarrow> pyval \<Rightarrow> pyval" where
  "numpy_byteorder_to_asdf_byteorder sys byteorder override =
     (if override \<noteq> PNone then override
      else if byteorder = CHR ''='' then PStr (byteorder_name sys)
      else if byteorder = CHR ''<'' then PStr ''little''
      else PStr ''big'')"

definition startswith :: "string \<Rightarrow> string \<Rightarrow> bool" where
  "startswith s p = (take (length p) s = p)"

text \<open>
  \<open>numpy_dtype_to_asdf_datatype(dtype, include_byteorder, override_byteorder)\<close>, returning
  the descriptor and the byte order. \<open>encode_fields\<close> is the loop over \<open>dtype.names\<close>; the
  recursive calls leave \<open>include_byteorder\<close> at its default \<open>True\<close>, as the source does.
  \<open>int(dtype.itemsize / 4)\<close> is the integer quotient, the item size being non-negative.
\<close>

fun numpy_dtype_to_asdf_datatype ::
    "endian \<Rightarrow> np_dtype \<Rightarrow> bool \<Rightarrow> pyval \<Rightarrow> error + (pyval \<times> pyval)"
  and encode_fields ::
    "endian \<Rightarrow> (string \<times> np_dtype) list \<Rightarrow> bool \<Rightarrow> pyval \<Rightarrow> error + pyval list" where
  "numpy_dtype_to_asdf_datatype sys (DRecord fs) include_byteorder override_byteorder =
     (case encode_fields sys fs include_byteorder override_byteorder of
        Inl e \<Rightarrow> Inl e
      | Inr fields \<Rightarrow>
          Inr (PList fields,
               numpy_byteorder_to_asdf_byteorder sys (dtype_byteorder sys (DRecord fs))
                 override_byteorder))"
| "numpy_dtype_to_asdf_datatype sys (DSub base shp) include_byteorder override_byteorder =
     numpy_dtype_to_asdf_datatype sys base True override_byteorder"
| "numpy_dtype_to_asdf_datatype sys dtype include_byteorder override_byteorder =
     (let name = dtype_name dtype;
          byteorder =
            numpy_byteorder_to_asdf_byteorder sys (dtype_byteorder sys dtype) override_byteorder
      in if map_of datatype_names name \<noteq> None then Inr (PStr name, byteorder)
         else if name = ''bool'' then Inr (PStr ''bool8'', byteorder)
         else if startswith name ''string'' \<or> startswith name ''bytes'' then
           Inr (PList [PStr ''ascii'', PInt (int (itemsize dtype))], PStr ''big'')
         else if startswith name ''unicode'' \<or> startswith name ''str'' then
           Inr (PList [PStr ''ucs4'', PInt (int (itemsize dtype) div 4)], byteorder)
         else Inl (ValueError ''Unknown dtype''))"
| "encode_fields sys [] include_byteorder override_byteorder = Inr []"
| "encode_fields sys (f # fs) include_byteorder override_byteorder =
     (case numpy_dtype_to_asdf_datatype sys (snd f) True override_byteorder of
        Inl e \<Rightarrow> Inl e
      | Inr (field_dtype, byteorder) \<Rightarrow>
          (case encode_fields sys fs include_byteorder override_byteorder of
             Inl e \<Rightarrow> Inl e
           | Inr ds \<Rightarrow>
               Inr (PDict
                     ([(''name'', PStr (fst f)), (''datatype'', field_dtype)]
                      @ (if include_byteorder then [(''byteorder'', byteorder)] else [])
                      @ (if dtype_shape (snd f) \<noteq> [] then
                           [(''shape'', PList (map (\<lambda>n. PInt (int n)) (dtype_shape (snd f))))]
                         else []))
                   # ds)))"

section \<open>Machine arithmetic\<close>

text \<open>
  numpy multiplies the entries of a shape as 64-bit signed integers: a product wraps around.
\<close>

definition wrap64 :: "int \<Rightarrow> int" where
  "wrap64 x = (x + 2 ^ 63) mod 2 ^ 64 - 2 ^ 63"

definition in_int64 :: "int \<Rightarrow> bool" where
  "in_int64 x = (- (2 ^ 63) \<le> x \<and> x < 2 ^ 63)"

text \<open>
  The number of binary digits of a positive integer (\<open>int.bit_length\<close>), and the integer
  nearest to \<open>x / y\<close> for a positive \<open>y\<close>, a tie going to the even one.
\<close>

function bit_length :: "int \<Rightarrow> nat" where
  "bit_length n = (if n \<le> 0 then 0 else Suc (bit_length (n div 2)))"
  by pat_completeness auto
termination
  by (relation "measure nat") auto

declare bit_length.simps [simp del]

definition rne :: "int \<Rightarrow> int \<Rightarrow> int" where
  "rne x y =
     (let f = x div y; r = x mod y
      in if 2 * r < y then f else if y < 2 * r then f + 1 else if even f then f else f + 1)"

text \<open>
  A double has 53 significant binary digits. \<open>double_of_int n\<close> is the double nearest to the
  integer \<open>n \<ge> 0\<close> (\<open>float(n)\<close>), and \<open>double_quotient_floor a b\<close> is the integer part of the
  double nearest to \<open>a / b\<close>, for integers \<open>a \<ge> 0\<close> and \<open>b > 0\<close>: with \<open>k\<close> the integer part of
  the exact quotient, the double is a multiple of \<open>2 ^ (bit_length k - 53)\<close>; a quotient below
  1 rounds up to 1 from \<open>1 - 2 ^ -54\<close> on. Both are integers below \<open>2 ^ 1024\<close>, or the double
  does not exist.
\<close>

definition double_of_int :: "int \<Rightarrow> int" where
  "double_of_int n =
     (if bit_length n \<le> 53 then n
      else rne n (2 ^ (bit_length n - 53)) * 2 ^ (bit_length n - 53))"

definition double_quotient_floor :: "int \<Rightarrow> int \<Rightarrow> int" where
  "double_quotient_floor a b =
     (let k = a div b
      in if k = 0 then (if b * (2 ^ 54 - 1) \<le> a * 2 ^ 54 then 1 else 0)
         else if bit_length k \<le> 53 then
           rne (a * 2 ^ (53 - bit_length k)) b div 2 ^ (53 - bit_length k)
         else rne a (b * 2 ^ (bit_length k - 53)) * 2 ^ (bit_length k - 53))"

text \<open>
  \<open>int(a / b)\<close> for Python integers \<open>a\<close> and \<open>b\<close>: the true division gives the double nearest
  to the quotient, raising \<open>ZeroDivisionError\<close> on a zero divisor and \<open>OverflowError\<close> when the
  quotient is beyond the doubles (it has more than 1024 binary digits), and \<open>int\<close> truncates
  it toward zero.
\<close>

definition int_truediv :: "int \<Rightarrow> int \<Rightarrow> error + int" where
  "int_truediv a b =
     (if b = 0 then Inl ZeroDivisionError
      else
        (let q = double_quotient_floor \<bar>a\<bar> \<bar>b\<bar>
         in if 1024 < bit_length q then Inl OverflowError
            else Inr (if (a < 0) = (b < 0) then q else - q)))"

text \<open>
  \<open>int(a / s)\<close> for a Python integer \<open>a\<close> and a numpy scalar \<open>s\<close> with the integer value \<open>b\<close>
  (an \<open>int64\<close>, or the \<open>float64\<close> of an empty product times the item size): numpy converts
  both operands to doubles and divides them. A zero divisor gives an infinity or NaN, on
  which \<open>int\<close> raises \<open>OverflowError\<close> or \<open>ValueError\<close>. What numpy does with a Python integer
  outside the 64-bit range depends on its version.
\<close>

definition np_truediv :: "int \<Rightarrow> int \<Rightarrow> error + int" where
  "np_truediv a b =
     (if \<not> in_int64 a then Inl (Unmodelled ''a byte count outside the 64-bit integers'')
      else if b = 0 then
        (if a = 0 then Inl (ValueError ''cannot convert float NaN to integer'')
         else Inl OverflowError)
      else
        (let q = double_quotient_floor (double_of_int \<bar>a\<bar>) (double_of_int \<bar>b\<bar>)
         in Inr (if (a < 0) = (b < 0) then q else - q)))"

text \<open>
  Doubles as rationals. \<open>pow2 z\<close> is \<open>2 ^ z\<close>; \<open>expo x\<close> is the exponent of a positive
  rational, \<open>2 ^ expo x \<le> x < 2 ^ (expo x + 1)\<close>; \<open>rne_rat\<close> rounds to the nearest integer, a
  tie going to the even one. \<open>round_double x\<close> is the binary64 value nearest to \<open>x\<close>: a
  multiple of \<open>2 ^ (expo x - 52)\<close>, of \<open>2 ^ -1074\<close> in the subnormal range, an infinity from
  \<open>2 ^ 1024\<close> on.
\<close>

definition pow2 :: "int \<Rightarrow> rat" where
  "pow2 z = (if 0 \<le> z then 2 ^ nat z else 1 / 2 ^ nat (- z))"

definition rne_rat :: "rat \<Rightarrow> int" where
  "rne_rat r =
     (let f = \<lfloor>r\<rfloor>; d = r - of_int f
      in if d < 1 / 2 then f else if 1 / 2 < d then f + 1 else if even f then f else f + 1)"

definition expo :: "rat \<Rightarrow> int" where
  "expo x = (if 1 \<le> x then int (bit_length \<lfloor>x\<rfloor>) - 1 else - int (bit_length (\<lceil>1 / x\<rceil> - 1)))"

definition round_double :: "rat \<Rightarrow> pyfloat" where
  "round_double x =
     (if x = 0 then Finite 0
      else
        (let u = pow2 (max (expo \<bar>x\<bar>) (- 1022) - 52);
             y = of_int (rne_rat (\<bar>x\<bar> / u)) * u
         in if pow2 1024 \<le> y then (if x < 0 then NegInf else PosInf)
            else Finite (if x < 0 then - y else y)))"

section \<open>Shape resolver\<close>

text \<open>
  \<open>np.prod(shape[1:])\<close> over the entries of a shape list: the product of 64-bit integers,
  wrapping around (a boolean counts as 0 or 1). An entry that is no integer, or an integer
  outside the 64-bit range, is outside the embedding.
\<close>

fun int_entry :: "pyval \<Rightarrow> int option" where
  "int_entry (PInt n) = (if in_int64 n then Some n else None)"
| "int_entry (PBool b) = Some (if b then 1 else 0)"
| "int_entry v = None"

fun np_prod :: "pyval list \<Rightarrow> error + int" where
  "np_prod [] = Inr 1"
| "np_prod (x # xs) =
     (case int_entry x of
        None \<Rightarrow> Inl (Unmodelled ''np.prod of a shape entry that is no 64-bit integer'')
      | Some n \<Rightarrow> (case np_prod xs of Inl e \<Rightarrow> Inl e | Inr p \<Rightarrow> Inr (wrap64 (n * p))))"

text \<open>
  \<open>strides[0] if strides is not None else np.prod(shape[1:]) * dtype.itemsize\<close>, followed
  by \<open>int(block_size / stride)\<close>. The element type enters only through its item size
  (\<open>None\<close> when the view has no element type, where \<open>dtype.itemsize\<close> raises). A stride taken
  from \<open>strides\<close> is a Python integer; the computed one is a numpy scalar, the product with
  the item size wrapping around as well.
\<close>

definition missing_dimension :: "pyval list \<Rightarrow> pyval \<Rightarrow> int option \<Rightarrow> int \<Rightarrow> error + int" where
  "missing_dimension shape strides isz block_size =
     (case strides of
        PNone \<Rightarrow>
          (case np_prod (tl shape) of
             Inl e \<Rightarrow> Inl e
           | Inr p \<Rightarrow>
               (case isz of
                  None \<Rightarrow> Inl (AttributeError ''itemsize'')
                | Some sz \<Rightarrow>
                    if in_int64 sz then np_truediv block_size (wrap64 (p * sz))
                    else Inl (Unmodelled ''an item size outside the 64-bit integers'')))
      | PList [] \<Rightarrow> Inl IndexError
      | PList (PInt s # _) \<Rightarrow> int_truediv block_size s
      | PList (PBool b # _) \<Rightarrow> int_truediv block_size (if b then 1 else 0)
      | _ \<Rightarrow> Inl (Unmodelled ''strides that do not start with an integer''))"

text \<open>\<open>NDArrayType.get_actual_shape\<close>.\<close>

definition get_actual_shape ::
  "pyval list \<Rightarrow> pyval \<Rightarrow> int option \<Rightarrow> int \<Rightarrow> error + pyval list" where
  "get_actual_shape shape strides isz block_size =
     (let num_stars = count_list shape star in
      if num_stars = 0 then Inr shape
      else if num_stars = 1 then
        (if hd shape \<noteq> star then Inl (ValueError ''* may only be in first entry of shape'')
         else
           (case missing_dimension shape strides isz block_size of
              Inl e \<Rightarrow> Inl e
            | Inr missing \<Rightarrow> Inr (PInt missing # tl shape)))
      else Inl (ValueError ''Invalid shape''))"

section \<open>Arrays\<close>

text \<open>
  An element of an array: an integer or a float. The mask of an array object: a plain
  \<open>np.ndarray\<close> has none (\<open>Unmasked\<close>); a \<open>ma.MaskedArray\<close> carries either numpy's \<open>nomask\<close> or
  one boolean per element.
\<close>

datatype elem = IntE int | FloatE pyfloat

datatype mask_state = Unmasked | Nomask | MaskBits "bool list"

text \<open>
  An array object, by the attributes the source reads: its identity (\<open>is\<close>), shape, strides,
  element type, elements in row-major order and mask; the memory map under
  \<open>util.get_array_base(array)\<close>, when that base is a \<open>np.memmap\<close> over an \<open>mmap.mmap\<close>; and, for
  the serializer, the identity of that base, whether the base is contiguous
  (\<open>base.flags.forc\<close>), whether the array is C-contiguous, and the distance in bytes from
  the base's data pointer to the array's.
\<close>

record ndarray =
  ident :: nat
  ashape :: "nat list"
  astrides :: "int list"
  adtype :: np_dtype
  avalues :: "elem list"
  amask :: mask_state
  root_mmap :: "nat option"
  base_ident :: nat
  base_forc :: bool
  c_contiguous :: bool
  base_offset :: int

text \<open>
  The bytes a storage source hands out (\<open>cached_data\<close> of a block): their count \<open>data.size\<close>,
  the memory map \<open>data.base\<close> when \<open>data.base\<close> is an \<open>mmap.mmap\<close>, the memory map under the root
  of the \<open>base\<close> chain of \<open>data\<close> when that root is a \<open>np.memmap\<close>, and the identity of that root.
\<close>

record buffer =
  data_size :: int
  direct_mmap :: "nat option"
  buffer_root_mmap :: "nat option"
  buffer_ident :: nat

text \<open>
  A storage source: a callable (the data callback of an internal block, by its block index,
  or the closure \<open>from_tree\<close> builds for an external block, by its name), or any other value
  (the list of an inline literal, \<open>None\<close>, ...).
\<close>

datatype callback = InternalBlock int | ExternalBlock string

datatype source = Callable callback | Value pyval

text \<open>A mask specification: a tree value, or an array (a lazy view stands by its array).\<close>

datatype maskspec = MaskValue pyval | MaskArray ndarray

text \<open>
  The calls a view makes on its collaborators, in order: \<open>_source(_attr=...)\<close>, and the calls
  on the block manager of the document.
\<close>

datatype call =
    Fetch callback string
  | SetArrayStorage string
  | AssignObject int
  | AssignCallback int
  | SetOptions nat
  | SetStreamedBlock nat
  | MakeWriteBlock nat

text \<open>
  The storage options of an array and the settings of \<open>config_context()\<close>.
\<close>

record options =
  storage_type :: string
  compression :: string
  compression_kwargs :: pyval

record config =
  all_array_storage :: "string option"
  all_array_compression :: string
  all_array_compression_kwargs :: pyval
  array_inline_threshold :: "int option"

text \<open>
  Everything outside the view that its operations read or change: the allocator of object
  identities, the memory maps that are closed, the calls made so far, what the data
  callbacks answer (\<open>cached_data\<close>, and \<open>header["data_size"]\<close>), and the block manager and
  configuration of the document (\<open>lazy_load\<close>, which block indices exist, the options
  \<open>get_options\<close> answers for each array by identity, the base of the streamed block, what
  \<open>make_write_block\<close> answers).
\<close>

record world =
  next_id :: nat
  closed :: "nat set"
  calls :: "call list"
  cached_data :: "callback \<Rightarrow> error + buffer"
  header_data_size :: "callback \<Rightarrow> error + int"
  lazy_load :: bool
  block_exists :: "int \<Rightarrow> bool"
  get_options :: "nat \<Rightarrow> options"
  streamed_block :: "nat option"
  write_block :: "nat \<Rightarrow> error + int"
  cfg :: config

text \<open>
  The operations of the host array library and the inline literal materializer, as
  parameters: the constructor \<open>np.ndarray(shape, dtype, buffer, offset, strides, order)\<close>,
  \<open>inline_data_asarray(inline, dtype)\<close> (each gives the attributes of the array it builds,
  whose identity the caller allocates, or its exception), \<open>np.ascontiguousarray\<close> (given the
  identity to use if it copies), the in-place
  \<open>ndarray.__setitem__(*args)\<close> (the new elements and mask, or its exception) and
  \<open>numpy_array_to_list\<close>.
\<close>

record host =
  np_ndarray ::
    "pyval list \<Rightarrow> np_result option \<Rightarrow> buffer \<Rightarrow> pyval \<Rightarrow> pyval \<Rightarrow> pyval \<Rightarrow> error + ndarray"
  inline_data_asarray :: "pyval \<Rightarrow> np_result option \<Rightarrow> error + ndarray"
  ndarray_setitem :: "ndarray \<Rightarrow> pyval list \<Rightarrow> error + (elem list \<times> mask_state)"
  ascontiguousarray :: "ndarray \<Rightarrow> nat \<Rightarrow> ndarray"
  numpy_array_to_list :: "ndarray \<Rightarrow> pyval"

text \<open>Allocation of a new object identity.\<close>

definition fresh :: "world \<Rightarrow> nat \<times> world" where
  "fresh w = (next_id w, w\<lparr>next_id := Suc (next_id w)\<rparr>)"

definition log_call :: "call \<Rightarrow> world \<Rightarrow> world" where
  "log_call c w = w\<lparr>calls := calls w @ [c]\<rparr>"

section \<open>Mask application\<close>

text \<open>
  Truth value and NaN test of an element; \<open>np.isscalar\<close> and \<open>np.isnan\<close> of a mask value
  (\<open>np.isnan\<close> of a string raises).
\<close>

fun truthy_elem :: "elem \<Rightarrow> bool" where
  "truthy_elem (IntE n) = (n \<noteq> 0)"
| "truthy_elem (FloatE (Finite r)) = (r \<noteq> 0)"
| "truthy_elem (FloatE f) = True"

fun elem_isnan :: "elem \<Rightarrow> bool" where
  "elem_isnan (FloatE NaN) = True"
| "elem_isnan e = False"

fun isscalar :: "pyval \<Rightarrow> bool" where
  "isscalar (PBool b) = True"
| "isscalar (PInt n) = True"
| "isscalar (PFloat f) = True"
| "isscalar (PStr s) = True"
| "isscalar v = False"

fun scalar_isnan :: "pyval \<Rightarrow> error + bool" where
  "scalar_isnan (PFloat NaN) = Inr True"
| "scalar_isnan (PStr s) = Inl (TypeError ''ufunc isnan not supported for the input types'')"
| "scalar_isnan v = Inr False"

text \<open>
  Numeric equality (\<open>==\<close> on floats, NaN equal to nothing) and \<open>np.isclose(a, b)\<close> on doubles
  with the default tolerances: \<open>rtol\<close> and \<open>atol\<close> are the doubles \<open>1e-5\<close> and \<open>1e-8\<close>, and on
  finite values the test is \<open>|a - b| <= atol + rtol * |b|\<close>, each operation rounded to a double
  (a difference that overflows is infinite and the test fails). Infinities are matched by
  equality.
\<close>

fun num_equal :: "pyfloat \<Rightarrow> pyfloat \<Rightarrow> bool" where
  "num_equal NaN b = False"
| "num_equal a NaN = False"
| "num_equal a b = (a = b)"

definition rtol :: rat where
  "rtol = 5902958103587057 / 2 ^ 69"

definition atol :: rat where
  "atol = 3022314549036573 / 2 ^ 78"

definition within_tol :: "rat \<Rightarrow> rat \<Rightarrow> bool" where
  "within_tol a b =
     (case round_double (a - b) of
        Finite d \<Rightarrow>
          (case round_double (rtol * \<bar>b\<bar>) of
             Finite p \<Rightarrow>
               (case round_double (atol + p) of Finite t \<Rightarrow> \<bar>d\<bar> \<le> t | _ \<Rightarrow> True)
           | _ \<Rightarrow> True)
      | _ \<Rightarrow> False)"

fun isclose :: "pyfloat \<Rightarrow> pyfloat \<Rightarrow> bool" where
  "isclose (Finite a) (Finite b) = within_tol a b"
| "isclose a b = num_equal a b"

text \<open>
  An element as a double (an integer is converted, a float is one), and the integers of each
  integer kind.
\<close>

fun elem_double :: "elem \<Rightarrow> pyfloat" where
  "elem_double (IntE n) = round_double (of_int n)"
| "elem_double (FloatE f) = f"

fun kind_range :: "kind \<Rightarrow> (int \<times> int) option" where
  "kind_range Int8 = Some (- (2 ^ 7), 2 ^ 7 - 1)"
| "kind_range Int16 = Some (- (2 ^ 15), 2 ^ 15 - 1)"
| "kind_range Int32 = Some (- (2 ^ 31), 2 ^ 31 - 1)"
| "kind_range Int64 = Some (- (2 ^ 63), 2 ^ 63 - 1)"
| "kind_range UInt8 = Some (0, 2 ^ 8 - 1)"
| "kind_range UInt16 = Some (0, 2 ^ 16 - 1)"
| "kind_range UInt32 = Some (0, 2 ^ 32 - 1)"
| "kind_range UInt64 = Some (0, 2 ^ 64 - 1)"
| "kind_range k = None"

text \<open>
  \<open>ma.array(array, mask=m)\<close>: a new masked array over the data of \<open>array\<close>. A mask of another
  size is repeated when it has one element and refused otherwise; a mask the array already
  has is kept (\<open>keep_mask\<close>).
\<close>

definition ma_array :: "world \<Rightarrow> ndarray \<Rightarrow> bool list \<Rightarrow> (error + ndarray) \<times> world" where
  "ma_array w array m =
     (let n = length (avalues array);
          given = (if length m = n then Some m
                   else if length m = 1 then Some (replicate n (hd m))
                   else None)
      in case given of
           None \<Rightarrow> (Inl MaskError, w)
         | Some bs \<Rightarrow>
             (let (i, w') = fresh w;
                  kept = (case amask array of
                            MaskBits old \<Rightarrow> map (\<lambda>p. fst p \<or> snd p) (zip bs old)
                          | _ \<Rightarrow> bs)
              in (Inr (array\<lparr>ident := i, amask := MaskBits kept\<rparr>), w')))"

text \<open>
  The comparison of \<open>ma.masked_values(array, value)\<close>, one boolean per element, and the check
  of \<open>value\<close> as the fill value of the result. On a \<open>float64\<close> array numpy compares with
  \<open>isclose\<close>, the value converted to a double. On an array of an integer kind it compares
  with \<open>==\<close>: exactly, with an integer of that kind, and with a float as doubles; a value
  that does not convert to the element type is no fill value, and \<open>TypeError\<close> is raised.
  Where the outcome depends on the promotion rules of the numpy version (an integer outside
  an element type narrower than 64 bits, a float on such a type, the \<open>float32\<close> kind) or is
  not a matter of integers and floats (complex and boolean arrays, strings, records), the
  embedding does not follow numpy.
\<close>

definition float64_mask :: "elem list \<Rightarrow> pyval \<Rightarrow> error + bool list" where
  "float64_mask vals v =
     (case v of
        PFloat f \<Rightarrow> Inr (map (\<lambda>x. isclose (elem_double x) f) vals)
      | PInt n \<Rightarrow>
          if in_int64 n then Inr (map (\<lambda>x. isclose (elem_double x) (round_double (of_int n))) vals)
          else Inl (Unmodelled ''masked_values with an integer outside the 64-bit integers'')
      | PBool b \<Rightarrow> Inr (map (\<lambda>x. isclose (elem_double x) (Finite (if b then 1 else 0))) vals)
      | _ \<Rightarrow> Inl (Unmodelled ''masked_values with a value that is no number''))"

definition integer_mask :: "kind \<Rightarrow> int \<Rightarrow> int \<Rightarrow> elem list \<Rightarrow> pyval \<Rightarrow> error + bool list" where
  "integer_mask k lo hi vals v =
     (case v of
        PInt n \<Rightarrow>
          if lo \<le> n \<and> n \<le> hi then Inr (map (\<lambda>x. x = IntE n) vals)
          else if k = Int64 then Inl (TypeError ''Cannot convert fill_value'')
          else Inl (Unmodelled ''masked_values with an integer outside the element type'')
      | PBool b \<Rightarrow> Inr (map (\<lambda>x. x = IntE (if b then 1 else 0)) vals)
      | PFloat (Finite r) \<Rightarrow>
          if k = Int64 \<and> \<bar>r\<bar> < 2 ^ 63 then Inr (map (\<lambda>x. elem_double x = Finite r) vals)
          else Inl (Unmodelled ''masked_values of an integer array with a float'')
      | PFloat NaN \<Rightarrow> Inl (TypeError ''Cannot convert fill_value'')
      | PFloat PosInf \<Rightarrow> Inl (TypeError ''Cannot convert fill_value'')
      | PFloat NegInf \<Rightarrow> Inl (TypeError ''Cannot convert fill_value'')
      | _ \<Rightarrow> Inl (Unmodelled ''masked_values with a value that is no number''))"

definition values_mask :: "np_dtype \<Rightarrow> elem list \<Rightarrow> pyval \<Rightarrow> error + bool list" where
  "values_mask dt vals v =
     (case dt of
        DScalar k bo \<Rightarrow>
          if k = Float64 then float64_mask vals v
          else
            (case kind_range k of
               Some (lo, hi) \<Rightarrow> integer_mask k lo hi vals v
             | None \<Rightarrow> Inl (Unmodelled ''masked_values of a float32, complex or boolean array''))
      | _ \<Rightarrow> Inl (Unmodelled ''masked_values of an array that is not of a scalar kind''))"

text \<open>
  \<open>ma.masked_values(array, value)\<close> on a plain array: a new masked array over the data of
  \<open>array\<close>, its mask shrunk to \<open>nomask\<close> when no bit is set.
\<close>

definition masked_values :: "world \<Rightarrow> ndarray \<Rightarrow> pyval \<Rightarrow> (error + ndarray) \<times> world" where
  "masked_values w array v =
     (if amask array \<noteq> Unmasked then (Inl (Unmodelled ''masked_values of a masked array''), w)
      else
        (case values_mask (adtype array) (avalues array) v of
           Inl e \<Rightarrow> (Inl e, w)
         | Inr m \<Rightarrow>
             (let (i, w') = fresh w
              in (Inr (array\<lparr>ident := i, amask := (if True \<in> set m then MaskBits m else Nomask)\<rparr>),
                  w'))))"

text \<open>
  \<open>NDArrayType._apply_mask(array, mask)\<close>. \<open>np.isnan(array)\<close> is defined on the scalar kinds
  and raises on strings and records.
\<close>

definition apply_mask :: "world \<Rightarrow> ndarray \<Rightarrow> maskspec \<Rightarrow> (error + ndarray) \<times> world" where
  "apply_mask w array mask_spec =
     (case mask_spec of
        MaskArray m \<Rightarrow> ma_array w array (map truthy_elem (avalues m))
      | MaskValue v \<Rightarrow>
          if isscalar v then
            (case scalar_isnan v of
               Inl e \<Rightarrow> (Inl e, w)
             | Inr True \<Rightarrow>
                 (case adtype array of
                    DScalar k bo \<Rightarrow> ma_array w array (map elem_isnan (avalues array))
                  | DOther nm sz \<Rightarrow>
                      (Inl (Unmodelled ''np.isnan of an array of another element type''), w)
                  | _ \<Rightarrow> (Inl (TypeError ''ufunc isnan not supported for the input types''), w))
             | Inr False \<Rightarrow> masked_values w array v)
          else (Inr array, w))"

section \<open>Lazy array view\<close>

text \<open>The fields of \<open>NDArrayType\<close>: \<open>self._source\<close>, \<open>self._array\<close>, \<open>self._mask\<close>, ...\<close>

record view =
  self_source :: source
  self_array :: "ndarray option"
  self_mask :: maskspec
  self_shape :: pyval
  self_dtype :: "np_result option"
  self_offset :: pyval
  self_strides :: pyval
  self_order :: pyval

text \<open>
  Equality of a dimension of an array with an entry of a declared shape, as \<open>==\<close> compares
  them, and of the two tuples.
\<close>

fun dim_eq :: "nat \<Rightarrow> pyval \<Rightarrow> bool" where
  "dim_eq n (PInt m) = (int n = m)"
| "dim_eq n (PBool b) = (n = (if b then 1 else 0))"
| "dim_eq n (PFloat (Finite r)) = (of_nat n = r)"
| "dim_eq n v = False"

definition shape_eq :: "nat list \<Rightarrow> pyval list \<Rightarrow> bool" where
  "shape_eq ns vs = list_all2 dim_eq ns vs"

text \<open>
  The test of \<open>__init__\<close> on inline data:
  \<open>shape is not None and ((shape[0] == "*" and array.shape[1:] != tuple(shape[1:])) or
  (array.shape != tuple(shape)))\<close>.
\<close>

definition inline_shape_mismatch :: "pyval \<Rightarrow> nat list \<Rightarrow> error + bool" where
  "inline_shape_mismatch shp array_shape =
     (case shp of
        PNone \<Rightarrow> Inr False
      | PList [] \<Rightarrow> Inl IndexError
      | PList (x # xs) \<Rightarrow>
          Inr ((x = star \<and> \<not> shape_eq (tl array_shape) xs) \<or> \<not> shape_eq array_shape (x # xs))
      | _ \<Rightarrow> Inl (Unmodelled ''a shape that is not a list''))"

text \<open>\<open>NDArrayType.__init__(source, shape, dtype, offset, strides, order, mask)\<close>.\<close>

definition init ::
  "host \<Rightarrow> world \<Rightarrow> source \<Rightarrow> pyval \<Rightarrow> np_result option \<Rightarrow> pyval \<Rightarrow> pyval \<Rightarrow> pyval
    \<Rightarrow> maskspec \<Rightarrow> (error + view) \<times> world" where
  "init h w src shp dtype offset strides order mask_spec =
     (let self = \<lparr>self_source = src, self_array = None, self_mask = mask_spec, self_shape = shp,
                  self_dtype = dtype, self_offset = offset, self_strides = strides,
                  self_order = order\<rparr>
      in case src of
           Value (PList xs) \<Rightarrow>
             (case inline_data_asarray h (PList xs) dtype of
                Inl e \<Rightarrow> (Inl e, w)
              | Inr built \<Rightarrow>
                  (let (i, w1) = fresh w in
                   case apply_mask w1 (built\<lparr>ident := i, root_mmap := None, base_ident := i\<rparr>)
                          mask_spec of
                     (Inl e, w2) \<Rightarrow> (Inl e, w2)
                   | (Inr array, w2) \<Rightarrow>
                       (case inline_shape_mismatch shp (ashape array) of
                          Inl e \<Rightarrow> (Inl e, w2)
                        | Inr True \<Rightarrow>
                            (Inl (ValueError ''inline data doesn't match the given shape''), w2)
                        | Inr False \<Rightarrow> (Inr (self\<lparr>self_array := Some array\<rparr>), w2))))
         | _ \<Rightarrow> (Inr self, w))"

text \<open>
  Whether the memory map under the base of a cached array is closed, and \<open>dtype.itemsize\<close>
  of the element type of a view (\<open>None\<close> where the attribute access raises).
\<close>

definition base_closed :: "world \<Rightarrow> ndarray \<Rightarrow> bool" where
  "base_closed w a = (case root_mmap a of None \<Rightarrow> False | Some m \<Rightarrow> m \<in> closed w)"

definition itemsize_of :: "np_result option \<Rightarrow> int option" where
  "itemsize_of dt = (case dt of Some (RDtype d) \<Rightarrow> Some (int (itemsize d)) | _ \<Rightarrow> None)"

text \<open>
  \<open>NDArrayType._make_array()\<close>: the array, or the exception, with the view and the world as
  the call leaves them. A source that is not callable has no \<open>size\<close>.
\<close>

definition make_array :: "host \<Rightarrow> world \<Rightarrow> view \<Rightarrow> (error + ndarray) \<times> view \<times> world" where
  "make_array h w self0 =
     (let self =
            (case self_array self0 of
               Some a \<Rightarrow> if base_closed w a then self0\<lparr>self_array := None\<rparr> else self0
             | None \<Rightarrow> self0)
      in case self_array self of
           Some a \<Rightarrow> (Inr a, self, w)
         | None \<Rightarrow>
             (case self_source self of
                Value x \<Rightarrow> (Inl (AttributeError ''size''), self, w)
              | Callable c \<Rightarrow>
                  (let w1 = log_call (Fetch c ''cached_data'') w in
                   case cached_data w1 c of
                     Inl e \<Rightarrow> (Inl e, self, w1)
                   | Inr data \<Rightarrow>
                       if (case direct_mmap data of None \<Rightarrow> False | Some m \<Rightarrow> m \<in> closed w1) then
                         (Inl (OSError ''Attempt to read data from a closed file''), self, w1)
                       else
                         (case self_shape self of
                            PNone \<Rightarrow> (Inl (AttributeError ''count''), self, w1)
                          | PList shp \<Rightarrow>
                              (case get_actual_shape shp (self_strides self)
                                      (itemsize_of (self_dtype self)) (data_size data) of
                                 Inl e \<Rightarrow> (Inl e, self, w1)
                               | Inr actual \<Rightarrow>
                                   (case np_ndarray h actual (self_dtype self) data
                                           (self_offset self) (self_strides self)
                                           (self_order self) of
                                      Inl e \<Rightarrow> (Inl e, self, w1)
                                    | Inr built \<Rightarrow>
                                        (let (i, w2) = fresh w1;
                                             array =
                                               built\<lparr>ident := i, amask := Unmasked,
                                                     root_mmap := buffer_root_mmap data,
                                                     base_ident := buffer_ident data\<rparr>
                                         in case apply_mask w2 array (self_mask self) of
                                              (Inl e, w3) \<Rightarrow>
                                                (Inl e, self\<lparr>self_array := Some array\<rparr>, w3)
                                            | (Inr masked, w3) \<Rightarrow>
                                                (Inr masked, self\<lparr>self_array := Some masked\<rparr>, w3))))
                          | _ \<Rightarrow> (Inl (Unmodelled ''a shape that is not a list''), self, w1)))))"

text \<open>The property \<open>NDArrayType.shape\<close>.\<close>

definition array_shape :: "ndarray \<Rightarrow> pyval list" where
  "array_shape a = map (\<lambda>n. PInt (int n)) (ashape a)"

definition made_shape :: "host \<Rightarrow> world \<Rightarrow> view \<Rightarrow> (error + pyval list) \<times> view \<times> world" where
  "made_shape h w self =
     (case make_array h w self of
        (Inl e, self', w') \<Rightarrow> (Inl e, self', w')
      | (Inr a, self', w') \<Rightarrow> (Inr (array_shape a), self', w'))"

definition view_shape :: "host \<Rightarrow> world \<Rightarrow> view \<Rightarrow> (error + pyval list) \<times> view \<times> world" where
  "view_shape h w self =
     (if self_shape self = PNone \<or> self_array self \<noteq> None then made_shape h w self
      else case self_shape self of
             PList shp \<Rightarrow>
               if star \<in> set shp then
                 (case self_source self of
                    Value (PStr s) \<Rightarrow> made_shape h w self
                  | Value x \<Rightarrow> (Inl (TypeError ''object is not callable''), self, w)
                  | Callable c \<Rightarrow>
                      (let w1 = log_call (Fetch c ''header'') w in
                       case header_data_size w1 c of
                         Inl e \<Rightarrow> (Inl e, self, w1)
                       | Inr header_size \<Rightarrow>
                           if header_size = 0 then made_shape h w1 self
                           else
                             (case get_actual_shape shp (self_strides self)
                                     (itemsize_of (self_dtype self)) header_size of
                                Inl e \<Rightarrow> (Inl e, self, w1)
                              | Inr actual \<Rightarrow> (Inr actual, self, w1))))
               else (Inr shp, self, w)
           | _ \<Rightarrow> (Inl (Unmodelled ''a shape that is not a list''), self, w))"

text \<open>
  \<open>NDArrayType.__setitem__(*args)\<close>: the exception raised, if any, with the view and the world
  afterwards. The assignment changes the cached array in place.
\<close>

definition setitem :: "host \<Rightarrow> world \<Rightarrow> view \<Rightarrow> pyval list \<Rightarrow> error option \<times> view \<times> world" where
  "setitem h w self args =
     (case make_array h w self of
        (Inl e, self', w') \<Rightarrow> (Some e, self'\<lparr>self_array := None\<rparr>, w')
      | (Inr a, self', w') \<Rightarrow>
          (case ndarray_setitem h a args of
             Inl e \<Rightarrow> (Some e, self'\<lparr>self_array := None\<rparr>, w')
           | Inr (vals, m) \<Rightarrow>
               (None, self'\<lparr>self_array := Some (a\<lparr>avalues := vals, amask := m\<rparr>)\<rparr>, w')))"

section \<open>Reading and writing descriptor nodes\<close>

text \<open>Truth value of a tree value, and \<open>node.get(key)\<close> with \<open>None\<close> for a missing key.\<close>

fun py_truthy :: "pyval \<Rightarrow> bool" where
  "py_truthy PNone = False"
| "py_truthy (PBool b) = b"
| "py_truthy (PInt n) = (n \<noteq> 0)"
| "py_truthy (PFloat (Finite r)) = (r \<noteq> 0)"
| "py_truthy (PFloat f) = True"
| "py_truthy (PStr s) = (s \<noteq> [])"
| "py_truthy (PList xs) = (xs \<noteq> [])"
| "py_truthy (PDict kvs) = (kvs \<noteq> [])"

definition dict_get :: "(string \<times> pyval) list \<Rightarrow> string \<Rightarrow> pyval \<Rightarrow> pyval" where
  "dict_get kvs k d = (case map_of kvs k of None \<Rightarrow> d | Some v \<Rightarrow> v)"

fun int_value :: "pyval \<Rightarrow> int" where
  "int_value (PInt n) = n"
| "int_value (PBool b) = (if b then 1 else 0)"
| "int_value v = 0"

text \<open>\<open>instance._make_array()\<close> unless the document loads lazily.\<close>

definition load_unless_lazy :: "host \<Rightarrow> (error + view) \<times> world \<Rightarrow> (error + view) \<times> world" where
  "load_unless_lazy h r =
     (case r of
        (Inl e, w) \<Rightarrow> (Inl e, w)
      | (Inr self, w) \<Rightarrow>
          if lazy_load w then (Inr self, w)
          else (case make_array h w self of
                  (Inl e, self', w') \<Rightarrow> (Inl e, w')
                | (Inr a, self', w') \<Rightarrow> (Inr self', w')))"

definition logged :: "call list \<Rightarrow> (error + view) \<times> world \<Rightarrow> (error + view) \<times> world" where
  "logged cs r =
     (case r of
        (Inl e, w) \<Rightarrow> (Inl e, w)
      | (Inr self, w) \<Rightarrow> (Inr self, w\<lparr>calls := calls w @ cs\<rparr>))"

text \<open>
  \<open>NDArrayType.from_tree(node, ctx)\<close>. The entry \<open>mask\<close> of the node is a tree value, or an array
  that the caller passes as \<open>array_mask\<close>. A block index that the block manager does not have
  raises \<open>IndexError\<close>.
\<close>

definition from_tree ::
  "endian \<Rightarrow> host \<Rightarrow> world \<Rightarrow> pyval \<Rightarrow> ndarray option \<Rightarrow> (error + view) \<times> world" where
  "from_tree sys h w node array_mask =
     (case node of
        PList xs \<Rightarrow>
          logged [SetArrayStorage ''inline'']
            (init h w (Value node) PNone None PNone PNone PNone (MaskValue PNone))
      | PDict kvs \<Rightarrow>
          (let source0 = dict_get kvs ''source'' PNone;
               data = dict_get kvs ''data'' PNone
           in if py_truthy source0 \<and> py_truthy data then
                (Inl (ValueError ''Both source and data may not be provided at the same time''), w)
              else
                (let src = (if py_truthy data then data else source0);
                     shp = dict_get kvs ''shape'' PNone
                 in case (if data \<noteq> PNone then Inr (PStr (byteorder_name sys))
                          else case map_of kvs ''byteorder'' of
                                 None \<Rightarrow> Inl (KeyError ''byteorder'')
                               | Some b \<Rightarrow> Inr b) of
                      Inl e \<Rightarrow> (Inl e, w)
                    | Inr byteorder \<Rightarrow>
                        (case (case map_of kvs ''datatype'' of
                                 None \<Rightarrow> Inr None
                               | Some dt \<Rightarrow>
                                   map_sum id Some (asdf_datatype_to_numpy_dtype sys dt byteorder)) of
                           Inl e \<Rightarrow> (Inl e, w)
                         | Inr dtype \<Rightarrow>
                             (let offset = dict_get kvs ''offset'' (PInt 0);
                                  strides = dict_get kvs ''strides'' PNone;
                                  mask_spec = (case array_mask of
                                                 Some m \<Rightarrow> MaskArray m
                                               | None \<Rightarrow> MaskValue (dict_get kvs ''mask'' PNone))
                              in load_unless_lazy h
                                   (if is_int src then
                                      (if block_exists w (int_value src) then
                                         logged [AssignObject (int_value src),
                                                 AssignCallback (int_value src)]
                                           (init h w (Callable (InternalBlock (int_value src))) shp
                                              dtype offset strides (PStr ''A'') mask_spec)
                                       else (Inl IndexError, w))
                                    else case src of
                                      PStr name \<Rightarrow>
                                        init h w (Callable (ExternalBlock name)) shp dtype offset
                                          strides (PStr ''A'') mask_spec
                                    | _ \<Rightarrow>
                                        logged [SetArrayStorage ''inline'']
                                          (init h w (Value src) shp dtype offset strides
                                             (PStr ''A'') mask_spec))))))
      | _ \<Rightarrow> (Inl (TypeError ''Invalid ndarray description.''), w))"

text \<open>
  The descriptor payload \<open>to_tree\<close> builds: the dictionary \<open>result\<close>, one field per key, absent
  keys as \<open>None\<close>.
\<close>

record payload =
  p_shape :: "pyval list"
  p_data :: "pyval option"
  p_datatype :: pyval
  p_source :: "int option"
  p_byteorder :: "pyval option"
  p_offset :: "int option"
  p_strides :: "int list option"
  p_mask :: "bool list option"

text \<open>
  Modelled from the spec: \<open>set_streamed_block(base, data)\<close> of the block manager, which is not
  among the sources. The spec allows one streamed block per document: a second base is
  refused.
\<close>

definition set_streamed_block :: "world \<Rightarrow> nat \<Rightarrow> error + world" where
  "set_streamed_block w base =
     (case streamed_block w of
        Some other \<Rightarrow>
          if other = base then Inr (log_call (SetStreamedBlock base) w)
          else Inl (ValueError ''Can not add second streaming block'')
      | None \<Rightarrow> Inr (log_call (SetStreamedBlock base) (w\<lparr>streamed_block := Some base\<rparr>)))"

text \<open>
  The storage options after the settings of \<open>config_context()\<close> and the inline threshold are
  applied; \<open>data.size\<close> is the number of elements.
\<close>

definition effective_options :: "config \<Rightarrow> options \<Rightarrow> int \<Rightarrow> options" where
  "effective_options c opts n =
     (let o1 = (case all_array_storage c of
                  None \<Rightarrow> opts
                | Some st \<Rightarrow> opts\<lparr>storage_type := st\<rparr>);
          o2 = (if all_array_compression c \<noteq> ''input''
                then o1\<lparr>compression := all_array_compression c,
                        compression_kwargs := all_array_compression_kwargs c\<rparr>
                else o1)
      in case array_inline_threshold c of
           None \<Rightarrow> o2
         | Some threshold \<Rightarrow>
             if storage_type o2 = ''inline'' \<or> storage_type o2 = ''internal'' then
               (if n < threshold then o2\<lparr>storage_type := ''inline''\<rparr>
                else o2\<lparr>storage_type := ''internal''\<rparr>)
             else o2)"

text \<open>\<open>list(shape)\<close> with \<open>result["shape"][0] = "*"\<close>, which raises on the empty list.\<close>

definition streamed_shape :: "pyval list \<Rightarrow> error + pyval list" where
  "streamed_shape shp = (case shp of [] \<Rightarrow> Inl IndexError | x # xs \<Rightarrow> Inr (star # xs))"

text \<open>
  The first step of \<open>to_tree\<close>: a contiguous copy when a stride is zero, and again when the
  base of the array is not contiguous.
\<close>

definition contiguous_data :: "host \<Rightarrow> world \<Rightarrow> ndarray \<Rightarrow> ndarray \<times> world" where
  "contiguous_data h w obj =
     (let (i, w1) = fresh w;
          data1 = (if list_ex (\<lambda>stride. stride = 0) (astrides obj)
                   then ascontiguousarray h obj i else obj);
          (j, w2) = fresh w1;
          data = (if \<not> base_forc data1 then ascontiguousarray h data1 j else data1)
      in (data, w2))"

text \<open>
  The last step of \<open>to_tree\<close>: the payload for the array \<open>data\<close> under the storage options
  \<open>opts\<close>, from the encoding of the element type on.
\<close>

definition emit_payload ::
  "endian \<Rightarrow> host \<Rightarrow> world \<Rightarrow> ndarray \<Rightarrow> options \<Rightarrow> (error + payload) \<times> world" where
  "emit_payload sys h w data opts =
     (case numpy_dtype_to_asdf_datatype sys (adtype data)
                (storage_type opts \<noteq> ''inline'') PNone of
        Inl e \<Rightarrow> (Inl e, w)
      | Inr (dtype, byteorder) \<Rightarrow>
          (case (if storage_type opts = ''streamed'' then streamed_shape (array_shape data)
                 else Inr (array_shape data)) of
             Inl e \<Rightarrow> (Inl e, w)
           | Inr rshape \<Rightarrow>
               (let masked = (case amask data of
                                MaskBits bs \<Rightarrow> if True \<in> set bs then Some bs else None
                              | _ \<Rightarrow> None)
                in if storage_type opts = ''inline'' then
                     (Inr \<lparr>p_shape = rshape, p_data = Some (numpy_array_to_list h data),
                           p_datatype = dtype, p_source = None, p_byteorder = None,
                           p_offset = None, p_strides = None, p_mask = masked\<rparr>,
                      (if masked = None then w else log_call (SetArrayStorage ''inline'') w))
                   else
                     (case (if storage_type opts = ''streamed'' then
                              map_sum id (\<lambda>w'. (- 1, w')) (set_streamed_block w (base_ident data))
                            else map_sum id
                                   (\<lambda>handle. (handle, log_call (MakeWriteBlock (base_ident data)) w))
                                   (write_block w (base_ident data))) of
                        Inl e \<Rightarrow> (Inl e, w)
                      | Inr (src, w') \<Rightarrow>
                          (Inr \<lparr>p_shape = rshape, p_data = None, p_datatype = dtype,
                                p_source = Some src, p_byteorder = Some byteorder,
                                p_offset = (if base_offset data > 0 then Some (base_offset data)
                                            else None),
                                p_strides = (if c_contiguous data then None
                                             else Some (astrides data)),
                                p_mask = masked\<rparr>,
                           w')))))"

text \<open>
  \<open>NDArrayType.to_tree(obj, ctx)\<close> for a concrete array \<open>obj\<close> (not a lazy view, so that the
  options are those of \<open>get_options\<close>).
\<close>

definition to_tree :: "endian \<Rightarrow> host \<Rightarrow> world \<Rightarrow> ndarray \<Rightarrow> (error + payload) \<times> world" where
  "to_tree sys h w obj =
     (let (data, w2) = contiguous_data h w obj;
          opts = effective_options (cfg w2) (get_options w2 (ident data))
                   (int (prod_list (ashape data)));
          w3 = log_call (SetOptions (ident data))
                 (w2\<lparr>get_options := (get_options w2)(ident data := opts)\<rparr>)
      in emit_payload sys h w3 data opts)"

text \<open>
  The storage kind under which \<open>to_tree\<close> serializes an array: \<open>options.storage_type\<close> after
  the configuration and the inline threshold are applied.
\<close>

definition storage_kind :: "host \<Rightarrow> world \<Rightarrow> ndarray \<Rightarrow> string" where
  "storage_kind h w obj =
     (let (data, w2) = contiguous_data h w obj
      in storage_type (effective_options (cfg w2) (get_options w2 (ident data))
                         (int (prod_list (ashape data)))))"

section \<open>Schema validators\<close>

text \<open>
  Equality \<open>==\<close> of tree values: numbers by value (a boolean is the integer 0 or 1),
  lists entry by entry, mappings key by key whatever the order of the keys.
\<close>

fun num_value :: "pyval \<Rightarrow> pyfloat option" where
  "num_value (PBool b) = Some (Finite (if b then 1 else 0))"
| "num_value (PInt n) = Some (Finite (of_int n))"
| "num_value (PFloat f) = Some f"
| "num_value v = None"

lemma size_in_list: "v \<in> set vs \<Longrightarrow> size v < Suc (size_list size vs)"
  by (induction vs) auto

function py_eq :: "pyval \<Rightarrow> pyval \<Rightarrow> bool" where
  "py_eq a b =
     (case (a, b) of
        (PNone, PNone) \<Rightarrow> True
      | (PStr s, PStr t) \<Rightarrow> s = t
      | (PList xs, PList ys) \<Rightarrow>
          list_all2 py_eq xs ys
      | (PDict kvs, PDict lws) \<Rightarrow>
          set (map fst kvs) = set (map fst lws)
          \<and> list_all
                (\<lambda>k. case (map_of kvs k, map_of lws k) of
                       (Some v, Some u) \<Rightarrow> py_eq v u
                     | _ \<Rightarrow> False)
                (map fst kvs)
      | _ \<Rightarrow>
          (case (num_value a, num_value b) of
             (Some x, Some y) \<Rightarrow> num_equal x y
           | _ \<Rightarrow> False))"
  by pat_completeness auto
termination
  apply (relation "measure (\<lambda>(a, b). size a)")
    apply (auto dest: size_in_list size_map_of [OF sym])
  done

declare py_eq.simps [simp del]

text \<open>
  The value a validator inspects: a tree value, or an array (a lazy view stands by its
  array).
\<close>

datatype candidate = TreeValue pyval | ArrayObject ndarray

text \<open>\<open>len(x)\<close> of a tree value.\<close>

fun py_len :: "pyval \<Rightarrow> error + int" where
  "py_len (PList xs) = Inr (int (length xs))"
| "py_len (PStr s) = Inr (int (length s))"
| "py_len (PDict kvs) = Inr (int (length kvs))"
| "py_len v = Inl (TypeError ''object has no len()'')"

text \<open>\<open>inline_data_asarray(x).ndim\<close>.\<close>

definition inline_ndim :: "host \<Rightarrow> pyval \<Rightarrow> error + int option" where
  "inline_ndim h v =
     (case inline_data_asarray h v None of
        Inl e \<Rightarrow> Inl e
      | Inr a \<Rightarrow> Inr (Some (int (length (ashape a)))))"

text \<open>\<open>_get_ndim(instance)\<close>: the number of dimensions, \<open>None\<close>, or an exception.\<close>

definition get_ndim :: "host \<Rightarrow> candidate \<Rightarrow> error + int option" where
  "get_ndim h inst =
     (case inst of
        TreeValue (PList xs) \<Rightarrow> inline_ndim h (PList xs)
      | TreeValue (PDict kvs) \<Rightarrow>
          (case map_of kvs ''shape'' of
             Some shp \<Rightarrow> map_sum id Some (py_len shp)
           | None \<Rightarrow>
               (case map_of kvs ''data'' of
                  Some d \<Rightarrow> inline_ndim h d
                | None \<Rightarrow> Inr None))
      | ArrayObject a \<Rightarrow> Inr (Some (int (length (ashape a))))
      | _ \<Rightarrow> Inr None)"

text \<open>
  A validation diagnostic, by the kind of its message. What a validator (a generator) does:
  the diagnostics it yields, and the exception that ends it, if any.
\<close>

datatype diagnostic =
    WrongNumberOfDimensions
  | TooManyDimensions
  | ExpectedDatatype
  | ExpectedScalarDatatype
  | ExpectedStructuredDatatype
  | CanNotSafelyCast
  | MismatchInNumberOfColumns
  | CanNotSafelyCastField nat

type_synonym validation = "diagnostic list \<times> error option"

text \<open>\<open>in_ndim != ndim\<close> and \<open>in_ndim > max_ndim\<close>, the bound being a value of the schema.\<close>

definition ndim_differs :: "int option \<Rightarrow> pyval \<Rightarrow> bool" where
  "ndim_differs in_ndim ndim =
     (case in_ndim of
        None \<Rightarrow> ndim \<noteq> PNone
      | Some n \<Rightarrow> \<not> py_eq (PInt n) ndim)"

definition ndim_exceeds :: "int option \<Rightarrow> pyval \<Rightarrow> error + bool" where
  "ndim_exceeds in_ndim max_ndim =
     (case (in_ndim, num_value max_ndim) of
        (Some n, Some (Finite r)) \<Rightarrow> Inr (of_int n > r)
      | (Some n, Some PosInf) \<Rightarrow> Inr False
      | (Some n, Some NegInf) \<Rightarrow> Inr True
      | (Some n, Some NaN) \<Rightarrow> Inr False
      | _ \<Rightarrow> Inl (TypeError ''> not supported between these instances''))"

text \<open>\<open>validate_ndim\<close> and \<open>validate_max_ndim\<close>.\<close>

definition validate_ndim :: "host \<Rightarrow> pyval \<Rightarrow> candidate \<Rightarrow> validation" where
  "validate_ndim h ndim inst =
     (case get_ndim h inst of
        Inl e \<Rightarrow> ([], Some e)
      | Inr in_ndim \<Rightarrow>
          if ndim_differs in_ndim ndim then ([WrongNumberOfDimensions], None) else ([], None))"

definition validate_max_ndim :: "host \<Rightarrow> pyval \<Rightarrow> candidate \<Rightarrow> validation" where
  "validate_max_ndim h max_ndim inst =
     (case get_ndim h inst of
        Inl e \<Rightarrow> ([], Some e)
      | Inr in_ndim \<Rightarrow>
          (case ndim_exceeds in_ndim max_ndim of
             Inl e \<Rightarrow> ([], Some e)
           | Inr True \<Rightarrow> ([TooManyDimensions], None)
           | Inr False \<Rightarrow> ([], None)))"

text \<open>
  The first part of \<open>validate_datatype\<close>: the descriptor of the element type of the
  instance, or the exception raised on the way.
\<close>

definition inline_datatype :: "endian \<Rightarrow> host \<Rightarrow> pyval \<Rightarrow> error + pyval" where
  "inline_datatype sys h v =
     (case inline_data_asarray h v None of
        Inl e \<Rightarrow> Inl e
      | Inr a \<Rightarrow> map_sum id fst (numpy_dtype_to_asdf_datatype sys (adtype a) True PNone))"

definition in_datatype :: "endian \<Rightarrow> host \<Rightarrow> candidate \<Rightarrow> error + pyval" where
  "in_datatype sys h inst =
     (case inst of
        TreeValue (PList xs) \<Rightarrow> inline_datatype sys h (PList xs)
      | TreeValue (PDict kvs) \<Rightarrow>
          (case map_of kvs ''datatype'' of
             Some dt \<Rightarrow> Inr dt
           | None \<Rightarrow>
               (case map_of kvs ''data'' of
                  Some d \<Rightarrow> inline_datatype sys h d
                | None \<Rightarrow> Inl (ValidationError ''Not an array'')))
      | ArrayObject a \<Rightarrow> map_sum id fst (numpy_dtype_to_asdf_datatype sys (adtype a) True PNone)
      | _ \<Rightarrow> Inl (ValidationError ''Not an array''))"

text \<open>
  \<open>dtype.fields\<close> (\<open>None\<close> unless the type is a record), \<open>dtype[i]\<close>, and the loop of
  \<open>validate_datatype\<close> over the fields of the expected record; \<open>np.can_cast(_, _, "safe")\<close> is a
  parameter.
\<close>

fun dtype_fields :: "np_dtype \<Rightarrow> (string \<times> np_dtype) list option" where
  "dtype_fields (DRecord fs) = Some fs"
| "dtype_fields dt = None"

definition no_fields :: "np_dtype \<Rightarrow> bool" where
  "no_fields dt = (case dtype_fields dt of None \<Rightarrow> True | Some fs \<Rightarrow> fs = [])"

definition dtype_index :: "np_dtype \<Rightarrow> nat \<Rightarrow> error + np_dtype" where
  "dtype_index dt i =
     (case dtype_fields dt of
        None \<Rightarrow> Inl (KeyError ''There are no fields in dtype'')
      | Some fs \<Rightarrow> if i < length fs then Inr (snd (fs ! i)) else Inl IndexError)"

fun cast_fields ::
  "endian \<Rightarrow> (np_dtype \<Rightarrow> np_dtype \<Rightarrow> bool) \<Rightarrow> np_dtype \<Rightarrow> np_dtype \<Rightarrow> nat list \<Rightarrow> validation" where
  "cast_fields sys can_cast np_in np_out [] = ([], None)"
| "cast_fields sys can_cast np_in np_out (i # rest) =
     (case dtype_index np_in i of
        Inl e \<Rightarrow> ([], Some e)
      | Inr in_type \<Rightarrow>
          (case dtype_index np_out i of
             Inl e \<Rightarrow> ([], Some e)
           | Inr out_type \<Rightarrow>
               if \<not> can_cast in_type out_type then
                 (case numpy_dtype_to_asdf_datatype sys out_type True PNone of
                    Inl e \<Rightarrow> ([], Some e)
                  | Inr x \<Rightarrow>
                      (case numpy_dtype_to_asdf_datatype sys in_type True PNone of
                         Inl e \<Rightarrow> ([], Some e)
                       | Inr y \<Rightarrow>
                           (case cast_fields sys can_cast np_in np_out rest of
                              (ds, r) \<Rightarrow> (CanNotSafelyCastField i # ds, r))))
               else cast_fields sys can_cast np_in np_out rest))"

text \<open>
  The comparison of the two decoded types in \<open>validate_datatype\<close>. A decoded descriptor that
  is a field tuple has no attribute \<open>fields\<close>; \<open>len\<close> of the absent \<open>fields\<close> of a scalar type
  raises.
\<close>

definition compare_types ::
  "endian \<Rightarrow> (np_dtype \<Rightarrow> np_dtype \<Rightarrow> bool) \<Rightarrow> np_result \<Rightarrow> np_result \<Rightarrow> validation" where
  "compare_types sys can_cast expected actual =
     (case expected of
        RTuple n d s \<Rightarrow> ([], Some (AttributeError ''fields''))
      | RDtype np_datatype \<Rightarrow>
          if no_fields np_datatype then
            (case actual of
               RTuple n d s \<Rightarrow> ([], Some (AttributeError ''fields''))
             | RDtype np_in_datatype \<Rightarrow>
                 ((if \<not> no_fields np_in_datatype then [ExpectedScalarDatatype] else [])
                  @ (if \<not> can_cast np_in_datatype np_datatype then [CanNotSafelyCast] else []),
                  None))
          else
            (case actual of
               RTuple n d s \<Rightarrow> ([], Some (AttributeError ''fields''))
             | RDtype np_in_datatype \<Rightarrow>
                 (let first = (if no_fields np_in_datatype then [ExpectedStructuredDatatype] else [])
                  in case dtype_fields np_in_datatype of
                       None \<Rightarrow> (first, Some (TypeError ''object of type NoneType has no len()''))
                     | Some in_fields \<Rightarrow>
                         (let second =
                                (if length in_fields \<noteq> length (the (dtype_fields np_datatype))
                                 then [MismatchInNumberOfColumns] else [])
                          in case cast_fields sys can_cast np_in_datatype np_datatype
                                    [0 ..< length (the (dtype_fields np_datatype))] of
                               (ds, r) \<Rightarrow> (first @ second @ ds, r)))))"

text \<open>
  \<open>validate_datatype(validator, datatype, instance, schema)\<close>. A schema that is not a
  mapping has no \<open>get\<close>: the call \<open>schema.get("exact_datatype", False)\<close> raises before any
  diagnostic is yielded.
\<close>

definition validate_datatype ::
  "endian \<Rightarrow> host \<Rightarrow> (np_dtype \<Rightarrow> np_dtype \<Rightarrow> bool) \<Rightarrow> pyval \<Rightarrow> candidate \<Rightarrow> pyval \<Rightarrow> validation" where
  "validate_datatype sys h can_cast datatype inst schema =
     (case in_datatype sys h inst of
        Inl e \<Rightarrow> ([], Some e)
      | Inr actual \<Rightarrow>
          if py_eq datatype actual then ([], None)
          else
            (case schema of
               PDict kvs \<Rightarrow>
                 (let exact =
                        (if py_truthy (dict_get kvs ''exact_datatype'' (PBool False))
                         then [ExpectedDatatype] else [])
                  in case asdf_datatype_to_numpy_dtype sys datatype PNone of
                       Inl e \<Rightarrow> (exact, Some e)
                     | Inr np_datatype \<Rightarrow>
                         (case asdf_datatype_to_numpy_dtype sys actual PNone of
                            Inl e \<Rightarrow> (exact, Some e)
                          | Inr np_in_datatype \<Rightarrow>
                              (case compare_types sys can_cast np_datatype np_in_datatype of
                                 (ds, r) \<Rightarrow> (exact @ ds, r))))
             | _ \<Rightarrow> ([], Some (AttributeError ''get''))))"

section \<open>Representable element types\<close>

text \<open>
  The element types the codec is meant for: the scalar kinds of the table with their byte
  order as numpy keeps it (none on a one-byte kind, one otherwise), byte strings, wide
  strings with a byte order, and records of named fields (names distinct and not empty, as
  numpy's list constructor makes them) whose types are representable types or subarrays,
  with a non-empty shape, of a representable type that is not itself a subarray.
\<close>


fun scalar_type :: "np_dtype \<Rightarrow> bool" where
  "scalar_type (DScalar k bo) = ((bo = None) = (kind_size k = 1))"
| "scalar_type (DBytes n) = True"
| "scalar_type (DUnicode n bo) = (bo \<noteq> None)"
| "scalar_type _ = False"

fun is_sub :: "np_dtype \<Rightarrow> bool" where
  "is_sub (DSub b s) = True"
| "is_sub _ = False"

fun representable :: "np_dtype \<Rightarrow> bool"
  and representable_fields :: "(string \<times> np_dtype) list \<Rightarrow> bool" where
  "representable (DRecord fs) = (distinct (map fst fs) \<and> representable_fields fs)"
| "representable (DSub base shp) = False"
| "representable (DOther nm sz) = False"
| "representable dt = scalar_type dt"
| "representable_fields [] = True"
| "representable_fields (f # fs) =
     (fst f \<noteq> []
      \<and> (case snd f of
            DSub base shp \<Rightarrow> shp \<noteq> [] \<and> \<not> is_sub base \<and> representable base
          | dt \<Rightarrow> representable dt)
      \<and> representable_fields fs)"

text \<open>
  The element type under a field's subarray, and the tuple that decoding yields for a field.
\<close>

fun field_base :: "np_dtype \<Rightarrow> np_dtype" where
  "field_base (DSub b s) = b"
| "field_base dt = dt"

definition field_tuple :: "string \<times> np_dtype \<Rightarrow> np_result" where
  "field_tuple f = RTuple (fst f) (RDtype (field_base (snd f)))
      (if dtype_shape (snd f) = [] then None else Some (map (\<lambda>n. PInt (int n)) (dtype_shape (snd f))))"

fun is_dict :: "pyval \<Rightarrow> bool" where
  "is_dict (PDict kvs) = True"
| "is_dict _ = False"

section \<open>A host and a world for the examples\<close>

text \<open>
  The examples run on a small host: inline literals are rectangular nested lists of
  integers, and the constructor gives an array of zeros of the resolved shape. An assignment
  \<open>a[i] = x\<close> on a plain \<open>int64\<close> or \<open>float64\<close> array takes an index on the first axis, counted
  from the end when negative, and stores \<open>x\<close> in every element under it; an index out of range
  raises \<open>IndexError\<close>, and a string of letters, which is no integer literal, raises
  \<open>ValueError\<close> on an \<open>int64\<close> array. The world has one internal block of 96 bytes over the
  memory map 1.
\<close>

fun c_strides :: "nat list \<Rightarrow> nat \<Rightarrow> int list" where
  "c_strides [] sz = []"
| "c_strides (n # ns) sz = int (prod_list ns * sz) # c_strides ns sz"

fun literal_shape :: "pyval \<Rightarrow> nat list option" where
  "literal_shape (PInt n) = Some []"
| "literal_shape (PList xs) =
     (case map literal_shape xs of
        [] \<Rightarrow> Some [0]
      | s # ss \<Rightarrow>
          (case s of
             None \<Rightarrow> None
           | Some d \<Rightarrow> if list_all (\<lambda>t. t = Some d) ss then Some (Suc (length ss) # d) else None))"
| "literal_shape v = None"

fun literal_values :: "pyval \<Rightarrow> elem list" where
  "literal_values (PInt n) = [IntE n]"
| "literal_values (PList xs) = concat (map literal_values xs)"
| "literal_values v = []"

definition plain_array :: "nat list \<Rightarrow> np_dtype \<Rightarrow> elem list \<Rightarrow> ndarray" where
  "plain_array shp dt vals =
     \<lparr>ident = 0, ashape = shp, astrides = c_strides shp (itemsize dt), adtype = dt,
      avalues = vals, amask = Unmasked, root_mmap = None, base_ident = 0, base_forc = True,
      c_contiguous = True, base_offset = 0\<rparr>"

definition ascii_letter :: "char \<Rightarrow> bool" where
  "ascii_letter c = (c \<in> set ''abcdefghijklmnopqrstuvwxyzABCDEFGHIJKLMNOPQRSTUVWXYZ'')"

definition example_element :: "np_dtype \<Rightarrow> pyval \<Rightarrow> error + elem" where
  "example_element dt x =
     (case x of
        PInt v \<Rightarrow>
          if dt = DScalar Int64 (Some Little) \<and> in_int64 v then Inr (IntE v)
          else if dt = DScalar Float64 (Some Little) \<and> \<bar>v\<bar> < 2 ^ 53 then
            Inr (FloatE (Finite (of_int v)))
          else Inl (Unmodelled ''an assignment of this integer to this element type'')
      | PStr s \<Rightarrow>
          if dt = DScalar Int64 (Some Little) \<and> list_all ascii_letter s then
            Inl (ValueError ''invalid literal for int() with base 10'')
          else Inl (Unmodelled ''an assignment of this string to this element type'')
      | _ \<Rightarrow> Inl (Unmodelled ''an assignment of a value that is no integer or string''))"

definition example_setitem :: "ndarray \<Rightarrow> pyval list \<Rightarrow> error + (elem list \<times> mask_state)" where
  "example_setitem a args =
     (case args of
        [PInt i, x] \<Rightarrow>
          (case ashape a of
             [] \<Rightarrow> Inl IndexError
           | n # ns \<Rightarrow>
               if amask a \<noteq> Unmasked then Inl (Unmodelled ''an assignment to a masked array'')
               else if i < - int n \<or> int n \<le> i then Inl IndexError
               else
                 (case example_element (adtype a) x of
                    Inl e \<Rightarrow> Inl e
                  | Inr e \<Rightarrow>
                      (let j = nat (if i < 0 then i + int n else i); r = prod_list ns
                       in Inr (take (j * r) (avalues a) @ replicate r e
                                 @ drop (Suc j * r) (avalues a),
                               amask a))))
      | _ \<Rightarrow> Inl (Unmodelled ''an assignment other than a[i] = x''))"

definition example_host :: host where
  "example_host =
     \<lparr>np_ndarray = (\<lambda>shp dt buf off st ord.
        case shape_entries shp of
          Inl e \<Rightarrow> Inl e
        | Inr ns \<Rightarrow>
            Inr (plain_array ns (DScalar Float64 (Some Little))
                   (replicate (prod_list ns) (FloatE (Finite 0))))),
      inline_data_asarray = (\<lambda>v dt.
        case literal_shape v of
          None \<Rightarrow> Inl (ValueError ''not a rectangular literal of integers'')
        | Some s \<Rightarrow> Inr (plain_array s (DScalar Int64 (Some Little)) (literal_values v))),
      ndarray_setitem = example_setitem,
      ascontiguousarray = (\<lambda>a i.
        if c_contiguous a then a
        else a\<lparr>ident := i, astrides := c_strides (ashape a) (itemsize (adtype a)),
               root_mmap := None, base_ident := i, base_forc := True, c_contiguous := True,
               base_offset := 0\<rparr>),
      numpy_array_to_list = (\<lambda>a. PList [])\<rparr>"

definition example_world :: world where
  "example_world =
     \<lparr>next_id = 10, closed = {}, calls = [],
      cached_data = (\<lambda>c.
        if c = InternalBlock 0
        then Inr \<lparr>data_size = 96, direct_mmap = Some 1, buffer_root_mmap = Some 1, buffer_ident = 5\<rparr>
        else Inl (OSError ''no such block'')),
      header_data_size = (\<lambda>c. if c = InternalBlock 0 then Inr 96 else Inl (OSError ''no such block'')),
      lazy_load = True,
      block_exists = (\<lambda>i. i = 0),
      get_options = (\<lambda>i. \<lparr>storage_type = ''internal'', compression = ''input'',
                              compression_kwargs = PNone\<rparr>),
      streamed_block = None,
      write_block = (\<lambda>i. Inr 0),
      cfg = \<lparr>all_array_storage = None, all_array_compression = ''input'',
             all_array_compression_kwargs = PNone, array_inline_threshold = None\<rparr>\<rparr>"

text \<open>A view over the internal block 0: twelve 8-byte floats as a 3 by 4 array.\<close>

definition example_view :: view where
  "example_view =
     \<lparr>self_source = Callable (InternalBlock 0), self_array = None, self_mask = MaskValue PNone,
      self_shape = PList [PInt 3, PInt 4], self_dtype = Some (RDtype (DScalar Float64 (Some Little))),
      self_offset = PInt 0, self_strides = PNone, self_order = PStr ''A''\<rparr>"

text \<open>
  The array that materializing \<open>example_view\<close> builds, the view and the world after it, and the
  world after the document was rewritten in place: the memory map 1 is closed and the block
  lives on the memory map 2.
\<close>

definition example_array :: ndarray where
  "example_array =
     (plain_array [3, 4] (DScalar Float64 (Some Little)) (replicate 12 (FloatE (Finite 0))))
       \<lparr>ident := 10, root_mmap := Some 1, base_ident := 5\<rparr>"

definition loaded_view :: view where
  "loaded_view = example_view\<lparr>self_array := Some example_array\<rparr>"

definition loaded_world :: world where
  "loaded_world = example_world\<lparr>calls := [Fetch (InternalBlock 0) ''cached_data''], next_id := 11\<rparr>"


text \<open>
  A view over the inline literal \<open>[1, 2, 3]\<close>, as \<open>__init__\<close> makes it: the array is built at
  once and kept in the cache, the source is the list.
\<close>

definition inline_view :: view where
  "inline_view =
     \<lparr>self_source = Value (PList [PInt 1, PInt 2, PInt 3]),
      self_array = Some ((plain_array [3] (DScalar Int64 (Some Little)) [IntE 1, IntE 2, IntE 3])
                           \<lparr>ident := 10, base_ident := 10\<rparr>),
      self_mask = MaskValue PNone, self_shape = PList [PInt 3],
      self_dtype = Some (RDtype (DScalar Int64 (Some Little))),
      self_offset = PInt 0, self_strides = PNone, self_order = PStr ''A''\<rparr>"

definition inline_world :: world where
  "inline_world = example_world\<lparr>next_id := 11\<rparr>"





definition small_ints :: ndarray where
  "small_ints = plain_array [3] (DScalar Int64 (Some Little)) [IntE 1, IntE 2, IntE 1]"

text \<open>
  Values that are array-like for the validators: a list, a mapping with a key the validator
  reads, or an array. Then a node with empty inline data, a world that does not load lazily,
  and a world whose configuration forces streamed storage.
\<close>

fun has_ndim :: "candidate \<Rightarrow> bool" where
  "has_ndim (TreeValue (PList xs)) = True"
| "has_ndim (TreeValue (PDict kvs)) = (map_of kvs ''shape'' \<noteq> None \<or> map_of kvs ''data'' \<noteq> None)"
| "has_ndim (ArrayObject a) = True"
| "has_ndim c = False"

fun has_datatype :: "candidate \<Rightarrow> bool" where
  "has_datatype (TreeValue (PList xs)) = True"
| "has_datatype (TreeValue (PDict kvs)) =
     (map_of kvs ''datatype'' \<noteq> None \<or> map_of kvs ''data'' \<noteq> None)"
| "has_datatype (ArrayObject a) = True"
| "has_datatype c = False"

definition empty_inline_node :: pyval where
  "empty_inline_node =
     PDict [(''data'', PList []), (''datatype'', PStr ''float64''), (''shape'', PList [PInt 0])]"

definition eager_world :: world where
  "eager_world = example_world\<lparr>lazy_load := False\<rparr>"

definition streamed_world :: world where
  "streamed_world =
     example_world\<lparr>cfg := (cfg example_world)\<lparr>all_array_storage := Some ''streamed''\<rparr>\<rparr>"


section \<open>Properties of the codec\<close>

lemma field_tuple_pair:
  "field_tuple (n, d) = RTuple n (RDtype (field_base d))
      (if dtype_shape d = [] then None else Some (map (\<lambda>n. PInt (int n)) (dtype_shape d)))"
  by (simp add: field_tuple_def)

lemma shape_entries_nat: "shape_entries (map (\<lambda>n. PInt (int n)) ns) = Inr ns"
  by (induction ns) simp_all

lemma field_entries_tuples:
  "\<forall>f \<in> set fs. fst f \<noteq> [] \<and> (case snd f of DSub b s \<Rightarrow> s \<noteq> [] \<and> \<not> is_sub b | _ \<Rightarrow> True)
   \<Longrightarrow> field_entries i (map field_tuple fs) = Inr fs"
proof (induction fs arbitrary: i)
  case Nil
  then show ?case by simp
next
  case (Cons f fs)
  obtain n d where f: "f = (n, d)" by (cases f)
  from Cons.prems have n: "n \<noteq> []" by (simp add: f)
  have tl: "field_entries (Suc i) (map field_tuple fs) = Inr fs"
    using Cons by simp
  show ?case
  proof (cases d)
    case (DSub b s)
    with Cons.prems f have "s \<noteq> []" "\<not> is_sub b" by auto
    then show ?thesis
      using n tl by (cases b) (simp_all add: f DSub field_tuple_pair shape_entries_nat np_subarray_def)
  qed (use n tl in \<open>simp_all add: f field_tuple_pair np_subarray_def\<close>)
qed

lemma not_string_descriptor: "list_all is_dict ds \<Longrightarrow> \<not> is_string_descriptor ds"
  by (cases ds rule: is_string_descriptor.cases) auto

lemma representable_fields_shape:
  "representable_fields fs \<Longrightarrow>
   \<forall>f \<in> set fs. fst f \<noteq> [] \<and> (case snd f of DSub b s \<Rightarrow> s \<noteq> [] \<and> \<not> is_sub b | _ \<Rightarrow> True)"
  by (induction fs) (auto split: np_dtype.splits)

lemma representable_field_base:
  "representable_fields (f # fs) \<Longrightarrow> representable (field_base (snd f))"
  by (cases "snd f") auto

lemma encode_field_base:
  "numpy_dtype_to_asdf_datatype sys d True ov = numpy_dtype_to_asdf_datatype sys (field_base d) True ov"
  by (cases d) simp_all

lemma digits_chars: "set (digits n) \<subseteq> set ''0123456789''"
proof (induction n rule: digits.induct)
  case (1 n)
  have nth: "\<And>k. k < 10 \<Longrightarrow> ''0123456789'' ! k \<in> set ''0123456789''"
    by (rule nth_mem) simp
  show ?case
  proof (cases "n < 10")
    case True
    then show ?thesis
      using nth [of n] by (subst digits.simps) simp
  next
    case False
    have "n mod 10 < 10" by simp
    with False "1" nth [of "n mod 10"] show ?thesis
      by (subst digits.simps) simp
  qed
qed

lemma bit_suffix_not_ing: "take 3 (bit_suffix n) \<noteq> ''ing''"
proof
  assume a: "take 3 (bit_suffix n) = ''ing''"
  have "set (take 3 (bit_suffix n)) \<subseteq> set (bit_suffix n)"
    by (rule set_take_subset)
  with a have "CHR ''i'' \<in> set (bit_suffix n)" by auto
  moreover have "set (bit_suffix n) \<subseteq> set ''0123456789''"
    using digits_chars by (simp add: bit_suffix_def)
  ultimately show False by auto
qed

lemma bit_suffix_not_ing': "take (Suc (Suc (Suc 0))) (bit_suffix n) \<noteq> ''ing''"
  using bit_suffix_not_ing [of n] by (simp add: numeral_3_eq_3)

lemma encode_scalar:
  "numpy_dtype_to_asdf_datatype sys (DScalar k bo) inc ov =
     Inr (PStr (if k = Bool then ''bool8'' else kind_name k),
          numpy_byteorder_to_asdf_byteorder sys (order_char sys bo) ov)"
  by (cases k) (simp_all add: Let_def datatype_names_def)

lemma encode_bytes:
  "numpy_dtype_to_asdf_datatype sys (DBytes n) inc ov =
     Inr (PList [PStr ''ascii'', PInt (int n)], PStr ''big'')"
  by (simp add: Let_def datatype_names_def startswith_def)

lemma encode_unicode:
  "numpy_dtype_to_asdf_datatype sys (DUnicode n bo) inc ov =
     Inr (PList [PStr ''ucs4'', PInt (int n)],
          numpy_byteorder_to_asdf_byteorder sys (order_char sys bo) ov)"
  by (simp add: Let_def datatype_names_def startswith_def bit_suffix_not_ing')

lemma order_roundtrip:
  "asdf_byteorder_to_numpy_byteorder
     (default_byteorder sys (numpy_byteorder_to_asdf_byteorder sys (order_char sys (Some e)) PNone))
   = Inr (if e = Little then CHR ''<'' else CHR ''>'')"
  by (cases e; cases sys)
     (simp_all add: numpy_byteorder_to_asdf_byteorder_def order_char_def
        asdf_byteorder_to_numpy_byteorder_def default_byteorder_def)

lemma order_roundtrip_none:
  "asdf_byteorder_to_numpy_byteorder
     (default_byteorder sys (numpy_byteorder_to_asdf_byteorder sys (order_char sys None) PNone))
   = Inr (CHR ''>'')"
  by (simp add: numpy_byteorder_to_asdf_byteorder_def order_char_def
        asdf_byteorder_to_numpy_byteorder_def default_byteorder_def)

lemma endian_not_little: "(e \<noteq> Little) = (e = Big)"
  by (cases e) simp_all

lemma scalar_roundtrip:
  "scalar_type T \<Longrightarrow>
   \<exists>d bo. numpy_dtype_to_asdf_datatype sys T True PNone = Inr (d, bo)
        \<and> asdf_datatype_to_numpy_dtype sys d bo = Inr (RDtype T)"
proof (cases T)
  case (DScalar k bo)
  assume "scalar_type T"
  then show ?thesis
    unfolding DScalar encode_scalar
    by (cases k; cases bo)
       (auto simp: datatype_names_def order_roundtrip order_roundtrip_none np_dtype_scalar_def
          numpy_codes_def endian_of_char_def endian_not_little)
next
  case (DBytes n)
  then show ?thesis
    unfolding DBytes encode_bytes
    by (simp add: string_datatype_names_def
          asdf_byteorder_to_numpy_byteorder_def default_byteorder_def np_dtype_flexible_def)
next
  case (DUnicode n bo)
  assume "scalar_type T"
  then show ?thesis
    unfolding DUnicode encode_unicode
    by (cases bo)
       (auto simp: string_datatype_names_def order_roundtrip np_dtype_flexible_def
          endian_of_char_def endian_not_little)
qed simp_all

lemma representable_base: "representable T \<Longrightarrow> field_base T = T"
  by (cases T) simp_all

lemma decode_field:
  assumes "asdf_datatype_to_numpy_dtype sys d bo = Inr (RDtype (field_base (snd f)))"
  shows "asdf_datatype_to_numpy_dtype sys
           (PDict ([(''name'', PStr (fst f)), (''datatype'', d)] @ [(''byteorder'', bo)]
                   @ (if dtype_shape (snd f) \<noteq> [] then
                        [(''shape'', PList (map (\<lambda>n. PInt (int n)) (dtype_shape (snd f))))]
                      else []))) b
         = Inr (field_tuple f)"
  using assms by (simp add: field_tuple_def)

lemma roundtrip_aux:
  "inc \<and> ov = PNone \<longrightarrow> representable (field_base T) \<longrightarrow>
      (\<exists>d bo. numpy_dtype_to_asdf_datatype sys T inc ov = Inr (d, bo)
          \<and> asdf_datatype_to_numpy_dtype sys d bo = Inr (RDtype (field_base T)))"
  and "inc \<and> ov = PNone \<longrightarrow> representable_fields fs \<longrightarrow>
      (\<exists>ds. encode_fields sys fs inc ov = Inr ds \<and> list_all is_dict ds
          \<and> (\<forall>b. datatype_list sys ds b = Inr (map field_tuple fs)))"
proof (induction sys T inc ov and sys fs inc ov
       rule: numpy_dtype_to_asdf_datatype_encode_fields.induct)
  case (1 sys fs inc ov)
  show ?case
  proof (intro impI)
    assume a: "inc \<and> ov = PNone" and r: "representable (field_base (DRecord fs))"
    from r have rf: "representable_fields fs" and dist: "distinct (map fst fs)" by simp_all
    from "1" a rf obtain ds where
      ds: "encode_fields sys fs inc ov = Inr ds" "list_all is_dict ds"
          "\<And>b. datatype_list sys ds b = Inr (map field_tuple fs)"
      by blast
    have fe: "field_entries 0 (map field_tuple fs) = Inr fs"
      using representable_fields_shape [OF rf] by (rule field_entries_tuples)
    show "\<exists>d bo. numpy_dtype_to_asdf_datatype sys (DRecord fs) inc ov = Inr (d, bo)
          \<and> asdf_datatype_to_numpy_dtype sys d bo = Inr (RDtype (field_base (DRecord fs)))"
      using ds fe dist
      by (simp add: not_string_descriptor np_dtype_fields_def)
  qed
next
  case (2 sys base shp inc ov)
  show ?case
  proof (intro impI)
    assume a: "inc \<and> ov = PNone" and r: "representable (field_base (DSub base shp))"
    then have rb: "representable base" by simp
    then have "field_base base = base" by (rule representable_base)
    with "2" a rb show "\<exists>d bo. numpy_dtype_to_asdf_datatype sys (DSub base shp) inc ov = Inr (d, bo)
          \<and> asdf_datatype_to_numpy_dtype sys d bo = Inr (RDtype (field_base (DSub base shp)))"
      by simp
  qed
next
  fix sys :: endian and k bo inc ov
  show "inc \<and> ov = PNone \<longrightarrow> representable (field_base (DScalar k bo)) \<longrightarrow>
      (\<exists>d b. numpy_dtype_to_asdf_datatype sys (DScalar k bo) inc ov = Inr (d, b)
          \<and> asdf_datatype_to_numpy_dtype sys d b = Inr (RDtype (field_base (DScalar k bo))))"
    using scalar_roundtrip [of "DScalar k bo" sys] by auto
next
  fix sys :: endian and n inc ov
  show "inc \<and> ov = PNone \<longrightarrow> representable (field_base (DBytes n)) \<longrightarrow>
      (\<exists>d b. numpy_dtype_to_asdf_datatype sys (DBytes n) inc ov = Inr (d, b)
          \<and> asdf_datatype_to_numpy_dtype sys d b = Inr (RDtype (field_base (DBytes n))))"
    using scalar_roundtrip [of "DBytes n" sys] by auto
next
  fix sys :: endian and n bo inc ov
  show "inc \<and> ov = PNone \<longrightarrow> representable (field_base (DUnicode n bo)) \<longrightarrow>
      (\<exists>d b. numpy_dtype_to_asdf_datatype sys (DUnicode n bo) inc ov = Inr (d, b)
          \<and> asdf_datatype_to_numpy_dtype sys d b = Inr (RDtype (field_base (DUnicode n bo))))"
    using scalar_roundtrip [of "DUnicode n bo" sys] by auto
next
  fix sys :: endian and nm sz inc ov
  show "inc \<and> ov = PNone \<longrightarrow> representable (field_base (DOther nm sz)) \<longrightarrow>
      (\<exists>d b. numpy_dtype_to_asdf_datatype sys (DOther nm sz) inc ov = Inr (d, b)
          \<and> asdf_datatype_to_numpy_dtype sys d b = Inr (RDtype (field_base (DOther nm sz))))"
    by simp
next
  case (4 sys inc ov)
  show ?case by simp
next
  case (5 sys f fs inc ov)
  show ?case
  proof (intro impI)
    assume a: "inc \<and> ov = PNone" and r: "representable_fields (f # fs)"
    have rb: "representable (field_base (snd f))"
      using r by (rule representable_field_base)
    from r have rf: "representable_fields fs" by simp
    from "5.IH"(1) a rb obtain d bo where
      d: "numpy_dtype_to_asdf_datatype sys (snd f) True ov = Inr (d, bo)"
         "asdf_datatype_to_numpy_dtype sys d bo = Inr (RDtype (field_base (snd f)))"
      by blast
    from "5.IH"(2) [OF d(1) refl] a rf obtain ds where
      ds: "encode_fields sys fs inc ov = Inr ds" "list_all is_dict ds"
          "\<And>b. datatype_list sys ds b = Inr (map field_tuple fs)"
      by blast
    from a have inc: "inc" by simp
    show "\<exists>ds. encode_fields sys (f # fs) inc ov = Inr ds \<and> list_all is_dict ds
          \<and> (\<forall>b. datatype_list sys ds b = Inr (map field_tuple (f # fs)))"
      using d(1) ds inc decode_field [OF d(2)]
      by (simp add: field_tuple_def del: asdf_datatype_to_numpy_dtype.simps)
  qed
qed


text \<open>
  C1. Round trip of the codec: for every representable element type \<open>T\<close>, encoding
  succeeds, and decoding the descriptor with the byte order that encoding returned
  (\<open>numpy_dtype_to_asdf_datatype\<close> returns the pair, \<open>asdf_datatype_to_numpy_dtype\<close> takes the two)
  yields \<open>T\<close> again, on either platform byte order.
\<close>

theorem codec_roundtrip:
  "representable T \<Longrightarrow>
   \<exists>d bo. numpy_dtype_to_asdf_datatype sys T True PNone = Inr (d, bo)
        \<and> asdf_datatype_to_numpy_dtype sys d bo = Inr (RDtype T)"
  using roundtrip_aux(1) [of True PNone T sys] by (simp add: representable_base)

theorem codec_roundtrip_witness:
  "representable (DRecord [(''a'', DScalar Int32 (Some Big)), (''b'', DSub (DBytes 3) [2, 2])])
   \<and> (\<exists>d bo. numpy_dtype_to_asdf_datatype Little
                 (DRecord [(''a'', DScalar Int32 (Some Big)), (''b'', DSub (DBytes 3) [2, 2])])
                 True PNone = Inr (d, bo)
        \<and> asdf_datatype_to_numpy_dtype Little d bo
            = Inr (RDtype (DRecord [(''a'', DScalar Int32 (Some Big)),
                                     (''b'', DSub (DBytes 3) [2, 2])])))"
proof -
  have r: "representable (DRecord [(''a'', DScalar Int32 (Some Big)), (''b'', DSub (DBytes 3) [2, 2])])"
    by simp
  from codec_roundtrip [OF r, of Little] r show ?thesis by blast
qed

section \<open>Properties of the shape resolver\<close>

text \<open>
  A positive integer lies between the powers of two that its number of digits gives.
\<close>

lemma bit_length_bounds: "0 < n \<Longrightarrow> 2 ^ (bit_length n - 1) \<le> n \<and> n < 2 ^ bit_length n"
proof (induction n rule: bit_length.induct)
  case (1 n)
  show ?case
  proof (cases "n div 2 = 0")
    case True
    with "1.prems" have "n = 1" by presburger
    then show ?thesis by (simp add: bit_length.simps)
  next
    case False
    with "1.prems" have p: "0 < n div 2" by presburger
    from "1.IH" [OF _ p] "1.prems"
    have ih: "2 ^ (bit_length (n div 2) - 1) \<le> n div 2" "n div 2 < 2 ^ bit_length (n div 2)" by auto
    have b: "bit_length n = Suc (bit_length (n div 2))"
      using "1.prems" by (subst bit_length.simps) simp
    have pos: "0 < bit_length (n div 2)"
      using p by (subst bit_length.simps) simp
    then obtain j where j: "bit_length (n div 2) = Suc j" by (cases "bit_length (n div 2)") auto
    from ih j have "2 * 2 ^ j \<le> n" by simp
    moreover from ih have "n < 2 * 2 ^ bit_length (n div 2)" by presburger
    ultimately show ?thesis by (simp add: b j)
  qed
qed

lemma rne_bounds: "0 < y \<Longrightarrow> x div y \<le> rne x y \<and> rne x y \<le> x div y + 1"
  by (simp add: rne_def Let_def)

lemma rne_up: "0 < y \<Longrightarrow> rne x y = x div y + 1 \<Longrightarrow> y \<le> 2 * (x mod y)"
  by (simp add: rne_def Let_def split: if_splits)

lemma bit_length_le: "0 < k \<Longrightarrow> k < 2 ^ n \<Longrightarrow> bit_length k \<le> n"
proof -
  assume k: "0 < k" and lt: "k < 2 ^ n"
  from bit_length_bounds [OF k] lt have "(2::int) ^ (bit_length k - 1) < 2 ^ n" by linarith
  then have "bit_length k - 1 < n" by simp
  moreover have "0 < bit_length k" using k by (subst bit_length.simps) simp
  ultimately show ?thesis by linarith
qed

lemma div_between:
  fixes m :: int
  assumes "0 < P" "k * P \<le> m" "m < (k + 1) * P"
  shows "m div P = k"
proof (rule int_div_pos_eq [where r = "m - k * P"])
  show "m = P * k + (m - k * P)" by (simp add: mult.commute)
  show "0 \<le> m - k * P" using assms by simp
  show "m - k * P < P" using assms by (simp add: algebra_simps)
qed

lemma div_bounds:
  fixes a :: int
  assumes "0 < b"
  shows "a div b * b \<le> a" and "a < (a div b + 1) * b"
proof -
  have e: "a = a div b * b + a mod b" by simp
  have "0 \<le> a mod b" "a mod b < b" using assms by simp_all
  with e show "a div b * b \<le> a" by linarith
  have "(a div b + 1) * b = a div b * b + b" by (simp add: algebra_simps)
  with e \<open>a mod b < b\<close> show "a < (a div b + 1) * b" by linarith
qed

text \<open>
  The integer part of the double nearest to \<open>a / b\<close> is the integer quotient as long as
  \<open>a\<close> is below \<open>2 ^ 53\<close>: rounding the quotient never reaches the next integer.
\<close>

lemma double_quotient_floor_exact:
  assumes a: "0 \<le> a" "a < 2 ^ 53" and b: "0 < b"
  shows "double_quotient_floor a b = a div b"
proof (cases "a div b = 0")
  case True
  with pos_imp_zdiv_pos_iff [OF b, of a] have "a < b" by simp
  with a have "\<not> b * (2 ^ 54 - 1) \<le> a * 2 ^ 54" by simp
  with True show ?thesis by (simp add: double_quotient_floor_def)
next
  case False
  define k where "k = a div b"
  define s where "s = 53 - bit_length k"
  define P :: int where "P = 2 ^ s"
  have "0 \<le> k" using a b by (simp add: k_def pos_imp_zdiv_nonneg_iff)
  with False have kpos: "0 < k" by (simp add: k_def)
  have lo: "k * b \<le> a" and hi: "a < (k + 1) * b"
    using div_bounds [OF b, of a] by (simp_all add: k_def)
  have "k * 1 \<le> k * b" using kpos b by (intro mult_left_mono) auto
  with lo have kle: "k \<le> a" by simp
  have bk: "bit_length k \<le> 53"
    using kpos kle a by (intro bit_length_le) auto
  have bkpos: "0 < bit_length k" using kpos by (subst bit_length.simps) simp
  have Ppos: "0 < P" by (simp add: P_def)
  define f where "f = (a * P) div b"
  define r where "r = (a * P) mod b"
  have fr: "a * P = f * b + r" "0 \<le> r" "r < b"
    using b by (simp_all add: f_def r_def)
  have flo: "k * P \<le> f"
  proof -
    have "(k * b) * P \<le> a * P" using lo Ppos by (intro mult_right_mono) auto
    then have "(k * P) * b \<le> a * P" by (simp add: mult.commute mult.left_commute)
    then have "((k * P) * b) div b \<le> (a * P) div b" using b by (intro zdiv_mono1) auto
    then show ?thesis using b by (simp add: f_def)
  qed
  have fhi: "f < (k + 1) * P"
  proof (rule ccontr)
    assume "\<not> f < (k + 1) * P"
    then have "(k + 1) * P \<le> f" by simp
    then have "((k + 1) * P) * b \<le> f * b" using b by (intro mult_right_mono) auto
    moreover have "f * b \<le> a * P" using fr by linarith
    moreover have "a * P < ((k + 1) * b) * P" using hi Ppos by (intro mult_strict_right_mono) auto
    moreover have "((k + 1) * b) * P = ((k + 1) * P) * b" by (simp add: mult.commute mult.left_commute)
    ultimately show False by linarith
  qed
  have m: "rne (a * P) b = f \<or> (rne (a * P) b = f + 1 \<and> b \<le> 2 * r)"
    using rne_bounds [OF b, of "a * P"] rne_up [OF b, of "a * P"]
    by (auto simp: f_def r_def)
  have mhi: "rne (a * P) b < (k + 1) * P"
  proof (rule ccontr)
    assume "\<not> rne (a * P) b < (k + 1) * P"
    with m fhi have up: "f + 1 = (k + 1) * P" "b \<le> 2 * r" by auto
    define d where "d = (k + 1) * b - a"
    have d1: "1 \<le> d" using hi by (simp add: d_def)
    have "(f + 1) * b = ((k + 1) * P) * b" using up(1) by simp
    then have "f * b = ((k + 1) * P) * b - b" by (simp add: algebra_simps)
    then have "a * P = ((k + 1) * b) * P - b + r"
      using fr(1) by (simp add: mult.commute mult.left_commute)
    moreover have "d * P = ((k + 1) * b) * P - a * P" by (simp add: d_def algebra_simps)
    ultimately have "d * P = b - r" by linarith
    with up(2) have "2 * (d * P) \<le> b" by linarith
    moreover have "1 * P \<le> d * P" using d1 Ppos by (intro mult_right_mono) auto
    ultimately have bP: "2 * P \<le> b" by linarith
    have "2 ^ (bit_length k - 1) \<le> k" using bit_length_bounds [OF kpos] by simp
    then have "2 ^ (bit_length k - 1) * (2 * P) \<le> k * b"
      using kpos Ppos bP by (intro mult_mono) auto
    moreover have "(2::int) ^ (bit_length k - 1) * (2 * P) = 2 ^ 53"
    proof -
      have e: "(bit_length k - 1) + Suc s = 53" using bk bkpos by (simp add: s_def)
      have "(2::int) ^ (bit_length k - 1) * (2 * P) = 2 ^ (bit_length k - 1) * 2 ^ Suc s"
        by (simp only: P_def power_Suc)
      also have "\<dots> = 2 ^ ((bit_length k - 1) + Suc s)"
        by (simp only: power_add)
      finally show ?thesis by (simp only: e)
    qed
    ultimately show False using lo a by linarith
  qed
  have mlo: "k * P \<le> rne (a * P) b" using m flo by auto
  have "rne (a * P) b div P = k"
    using Ppos mlo mhi by (rule div_between)
  then show ?thesis
    using False bk by (simp add: double_quotient_floor_def k_def s_def P_def Let_def)
qed

lemma double_of_int_small: "0 \<le> n \<Longrightarrow> n < 2 ^ 53 \<Longrightarrow> double_of_int n = n"
proof (cases "n = 0")
  case True
  then show ?thesis by (simp add: double_of_int_def bit_length.simps)
next
  case False
  assume "0 \<le> n" "n < 2 ^ 53"
  with False have "bit_length n \<le> 53" by (intro bit_length_le) auto
  then show ?thesis by (simp add: double_of_int_def)
qed

lemma double_of_int_large:
  assumes "2 ^ 53 \<le> n"
  shows "2 ^ 53 \<le> double_of_int n"
proof -
  have pos: "0 < n" using assms by (rule less_le_trans [rotated]) simp
  from bit_length_bounds [OF pos] have lo: "2 ^ (bit_length n - 1) \<le> n" and hi: "n < 2 ^ bit_length n"
    by simp_all
  from assms hi have "(2::int) ^ 53 < 2 ^ bit_length n" by linarith
  with power_less_imp_less_exp [of "2::int" 53 "bit_length n"] have gt: "53 < bit_length n"
    by (simp del: power_strict_increasing_iff)
  define t where "t = bit_length n - 53"
  have tpos: "0 < t" using gt by (simp add: t_def)
  have e: "bit_length n - 1 = 52 + t" using gt by (simp add: t_def)
  have "(2::int) ^ 52 * 2 ^ t \<le> n" using lo by (simp only: e power_add)
  then have "((2::int) ^ 52 * 2 ^ t) div 2 ^ t \<le> n div 2 ^ t" by (intro zdiv_mono1) auto
  then have "(2::int) ^ 52 \<le> n div 2 ^ t" by simp
  also have "\<dots> \<le> rne n (2 ^ t)" using rne_bounds [of "2 ^ t" n] by simp
  finally have r: "(2::int) ^ 52 \<le> rne n (2 ^ t)" .
  have "(2::int) ^ 1 \<le> 2 ^ t" using tpos by (intro power_increasing) auto
  then have "(2::int) ^ 52 * 2 \<le> rne n (2 ^ t) * 2 ^ t" using r by (intro mult_mono) auto
  moreover have "double_of_int n = rne n (2 ^ t) * 2 ^ t" using gt by (simp add: double_of_int_def t_def)
  ultimately show ?thesis by simp
qed

lemma double_quotient_floor_double:
  assumes a: "0 \<le> a" "a < 2 ^ 53" and b: "0 < b"
  shows "double_quotient_floor (double_of_int a) (double_of_int b) = a div b"
proof (cases "b < 2 ^ 53")
  case True
  with a b show ?thesis by (simp add: double_of_int_small double_quotient_floor_exact)
next
  case False
  then have "2 ^ 53 \<le> double_of_int b" by (intro double_of_int_large) simp
  with a have big: "a < double_of_int b" by linarith
  with a have "0 < double_of_int b" by linarith
  with a have "double_quotient_floor a (double_of_int b) = a div double_of_int b"
    by (intro double_quotient_floor_exact)
  moreover have "a div double_of_int b = 0" using a big by simp
  moreover have "a div b = 0" using a False by simp
  ultimately show ?thesis using a by (simp add: double_of_int_small)
qed

text \<open>
  A product of 64-bit integers that wraps around at every step is the exact product wrapped
  once, and the exact product itself when that is a 64-bit integer.
\<close>

lemma wrap64_mult: "wrap64 (x * wrap64 y) = wrap64 (x * y)"
proof -
  have "(x * ((y + 2 ^ 63) mod 2 ^ 64 - 2 ^ 63) + 2 ^ 63) mod 2 ^ 64
        = (x * ((y + 2 ^ 63) mod 2 ^ 64) + (2 ^ 63 - x * 2 ^ 63)) mod (2 ^ 64 :: int)"
    by (simp add: algebra_simps)
  also have "\<dots> = (x * (y + 2 ^ 63) + (2 ^ 63 - x * 2 ^ 63)) mod 2 ^ 64"
    by (metis mod_add_left_eq mod_mult_right_eq)
  also have "\<dots> = (x * y + 2 ^ 63) mod 2 ^ 64"
    by (simp add: algebra_simps)
  finally show ?thesis by (simp add: wrap64_def)
qed

lemma wrap64_in_range: "in_int64 x \<Longrightarrow> wrap64 x = x"
  by (simp add: wrap64_def in_int64_def)

lemma np_prod_ints: "list_all in_int64 ds \<Longrightarrow> np_prod (map PInt ds) = Inr (wrap64 (prod_list ds))"
proof (induction ds)
  case Nil
  show ?case by (simp add: wrap64_def)
next
  case (Cons d ds)
  then show ?case by (simp add: wrap64_mult)
qed

lemma computed_stride:
  assumes "list_all in_int64 ds" "0 < prod_list ds * sz" "prod_list ds * sz < 2 ^ 63"
  shows "np_prod (map PInt ds) = Inr (wrap64 (prod_list ds))"
    and "wrap64 (wrap64 (prod_list ds) * sz) = prod_list ds * sz"
proof -
  show "np_prod (map PInt ds) = Inr (wrap64 (prod_list ds))" using assms(1) by (rule np_prod_ints)
  have "wrap64 (wrap64 (prod_list ds) * sz) = wrap64 (sz * wrap64 (prod_list ds))"
    by (simp add: mult.commute)
  also have "\<dots> = wrap64 (sz * prod_list ds)" by (rule wrap64_mult)
  also have "\<dots> = prod_list ds * sz" using assms(2,3) by (simp add: wrap64_in_range in_int64_def mult.commute)
  finally show "wrap64 (wrap64 (prod_list ds) * sz) = prod_list ds * sz" .
qed

lemma int_truediv_exact:
  assumes "0 \<le> a" "a < 2 ^ 53" "0 < b"
  shows "int_truediv a b = Inr (a div b)"
proof -
  have q: "double_quotient_floor a b = a div b" using assms by (rule double_quotient_floor_exact)
  have "a div b \<le> a div 1" using assms by (intro zdiv_mono2) auto
  with assms have k: "a div b < 2 ^ 53" by simp
  have "bit_length (a div b) \<le> 53"
  proof (cases "a div b \<le> 0")
    case True
    then show ?thesis by (simp add: bit_length.simps)
  next
    case False
    with k show ?thesis by (intro bit_length_le) auto
  qed
  with q assms show ?thesis by (simp add: int_truediv_def Let_def)
qed

lemma np_truediv_exact:
  assumes "0 \<le> a" "a < 2 ^ 53" "0 < b"
  shows "np_truediv a b = Inr (a div b)"
  using assms double_quotient_floor_double [OF assms]
  by (simp add: np_truediv_def in_int64_def Let_def)

text \<open>
  C3, as stated, fails. For the shape \<open>["*", 2 ** 31, 2 ** 31]\<close> with 8-byte items and 96
  bytes the claim gives \<open>[0, 2 ** 31, 2 ** 31]\<close>; the product of the trailing dimensions times
  the item size, \<open>2 ** 65\<close>, wraps around to the stride 0, the quotient is infinite and \<open>int\<close>
  raises \<open>OverflowError\<close>. For the stride 1 and \<open>2 ** 53 + 1\<close> bytes the claim gives
  \<open>2 ** 53 + 1\<close>; the quotient is a double, and the result is \<open>2 ** 53\<close>.
\<close>

theorem get_actual_shape_quotient_counterexample:
  "get_actual_shape [star, PInt (2 ^ 31), PInt (2 ^ 31)] PNone (Some 8) 96 = Inl OverflowError
   \<and> get_actual_shape [star] (PList [PInt 1]) (Some 8) (2 ^ 53 + 1) = Inr [PInt (2 ^ 53)]"
  by code_simp

text \<open>
  C3, amended. \<open>get_actual_shape\<close>: a shape without wildcard is returned unchanged; with
  exactly one wildcard, in the first entry, and a byte count from 0 to below \<open>2 ^ 53\<close>, the
  result is the integer quotient of the byte count by the stride, followed by the trailing
  entries, where the stride is the first of the given strides, when that is positive, or
  without strides the product of the trailing dimensions times the item size, when these are
  64-bit integers and the product is positive and below \<open>2 ^ 63\<close>; one wildcard elsewhere, or
  more than one, raises the \<open>ValueError\<close> of an invalid shape.
\<close>

theorem get_actual_shape_resolves:
  "(count_list shp star = 0 \<longrightarrow> get_actual_shape shp strides isz bs = Inr shp)
   \<and> (count_list shp star = 1 \<and> hd shp = star \<and> strides = PList (PInt s # ss) \<and> 0 < s
        \<and> 0 \<le> bs \<and> bs < 2 ^ 53
        \<longrightarrow> get_actual_shape shp strides isz bs = Inr (PInt (bs div s) # tl shp))
   \<and> (count_list shp star = 1 \<and> hd shp = star \<and> strides = PNone \<and> tl shp = map PInt ds
        \<and> list_all in_int64 ds \<and> isz = Some sz \<and> in_int64 sz
        \<and> 0 < prod_list ds * sz \<and> prod_list ds * sz < 2 ^ 63 \<and> 0 \<le> bs \<and> bs < 2 ^ 53
        \<longrightarrow> get_actual_shape shp strides isz bs = Inr (PInt (bs div (prod_list ds * sz)) # tl shp))
   \<and> (count_list shp star = 1 \<and> hd shp \<noteq> star
        \<longrightarrow> get_actual_shape shp strides isz bs
            = Inl (ValueError ''* may only be in first entry of shape''))
   \<and> (1 < count_list shp star
        \<longrightarrow> get_actual_shape shp strides isz bs = Inl (ValueError ''Invalid shape''))"
proof (intro conjI impI)
  assume "count_list shp star = 1 \<and> hd shp = star \<and> strides = PList (PInt s # ss) \<and> 0 < s
        \<and> 0 \<le> bs \<and> bs < 2 ^ 53"
  then show "get_actual_shape shp strides isz bs = Inr (PInt (bs div s) # tl shp)"
    by (simp add: get_actual_shape_def missing_dimension_def int_truediv_exact)
next
  assume h: "count_list shp star = 1 \<and> hd shp = star \<and> strides = PNone \<and> tl shp = map PInt ds
        \<and> list_all in_int64 ds \<and> isz = Some sz \<and> in_int64 sz
        \<and> 0 < prod_list ds * sz \<and> prod_list ds * sz < 2 ^ 63 \<and> 0 \<le> bs \<and> bs < 2 ^ 53"
  then have "missing_dimension shp strides isz bs = Inr (bs div (prod_list ds * sz))"
    using computed_stride [of ds sz]
    by (simp add: missing_dimension_def np_truediv_exact)
  with h show "get_actual_shape shp strides isz bs = Inr (PInt (bs div (prod_list ds * sz)) # tl shp)"
    by (simp add: get_actual_shape_def)
qed (simp_all add: get_actual_shape_def)

theorem get_actual_shape_resolves_witness:
  "get_actual_shape [PInt 3, PInt 4] PNone (Some 8) 96 = Inr [PInt 3, PInt 4]
   \<and> get_actual_shape [star, PInt 4] (PList [PInt 32, PInt 8]) (Some 8) 100 = Inr [PInt 3, PInt 4]
   \<and> get_actual_shape [star, PInt 4] PNone (Some 8) 100 = Inr [PInt 3, PInt 4]
   \<and> get_actual_shape [PInt 4, star] PNone (Some 8) 96
       = Inl (ValueError ''* may only be in first entry of shape'')
   \<and> get_actual_shape [star, star] PNone (Some 8) 96 = Inl (ValueError ''Invalid shape'')"
  using get_actual_shape_resolves [of "[PInt 3, PInt 4]" PNone "Some 8" 96 0 "[]" "[]" 0]
        get_actual_shape_resolves [of "[star, PInt 4]" "PList [PInt 32, PInt 8]" "Some 8" 100 32
          "[PInt 8]" "[]" 0]
        get_actual_shape_resolves [of "[star, PInt 4]" PNone "Some 8" 100 0 "[]" "[4]" 8]
        get_actual_shape_resolves [of "[PInt 4, star]" PNone "Some 8" 96 0 "[]" "[]" 0]
        get_actual_shape_resolves [of "[star, star]" PNone "Some 8" 96 0 "[]" "[]" 0]
  by (simp add: star_def in_int64_def)

section \<open>Properties of the lazy array view\<close>









lemma make_array_rebuilds:
  assumes "self_array self = None" "self_source self = Callable c"
    and "cached_data (log_call (Fetch c ''cached_data'') w) c = Inr data"
    and "\<forall>m. direct_mmap data = Some m \<longrightarrow> m \<notin> closed w"
    and "self_shape self = PList shp"
    and "get_actual_shape shp (self_strides self) (itemsize_of (self_dtype self)) (data_size data)
         = Inr actual"
    and "np_ndarray h actual (self_dtype self) data (self_offset self) (self_strides self)
           (self_order self) = Inr built"
    and "self_mask self = MaskValue PNone"
  shows "make_array h w self =
     (let b = built\<lparr>ident := next_id w, amask := Unmasked, root_mmap := buffer_root_mmap data,
                      base_ident := buffer_ident data\<rparr>
      in (Inr b, self\<lparr>self_array := Some b\<rparr>,
          w\<lparr>calls := calls w @ [Fetch c ''cached_data''], next_id := Suc (next_id w)\<rparr>))"
  using assms
  by (auto simp: make_array_def Let_def fresh_def log_call_def apply_mask_def
      split: option.splits)





text \<open>
  C9. On a view without cached array whose shape has no wildcard, the \<open>shape\<close> property
  returns the declared shape and changes neither the view (the cache stays absent) nor the
  world (no call on the storage source is made).
\<close>

theorem shape_without_wildcard:
  "self_array self = None \<Longrightarrow> self_shape self = PList shp \<Longrightarrow> star \<notin> set shp
   \<Longrightarrow> view_shape h w self = (Inr shp, self, w)"
  by (simp add: view_shape_def)

theorem shape_without_wildcard_witness:
  "self_array example_view = None \<and> self_shape example_view = PList [PInt 3, PInt 4]
   \<and> star \<notin> set [PInt 3, PInt 4]
   \<and> view_shape example_host example_world example_view
       = (Inr [PInt 3, PInt 4], example_view, example_world)"
proof -
  have a: "self_array example_view = None" "self_shape example_view = PList [PInt 3, PInt 4]"
      "star \<notin> set [PInt 3, PInt 4]"
    by (simp_all add: example_view_def star_def)
  from shape_without_wildcard [OF a, of example_host example_world] a show ?thesis by simp
qed

text \<open>
  \<open>__setitem__\<close>: whenever it raises, the cache of the view is cleared; when the assignment
  on the array raises, that same exception is the one raised; when the assignment succeeds,
  nothing is raised and the cache keeps the (updated) array.
\<close>

lemma setitem_outcomes:
  "(\<forall>e. fst (setitem h w self args) = Some e \<longrightarrow> self_array (fst (snd (setitem h w self args))) = None)
   \<and> (\<forall>a self' w' e. make_array h w self = (Inr a, self', w') \<and> ndarray_setitem h a args = Inl e
        \<longrightarrow> setitem h w self args = (Some e, self'\<lparr>self_array := None\<rparr>, w'))
   \<and> (\<forall>a self' w' vals m. make_array h w self = (Inr a, self', w')
          \<and> ndarray_setitem h a args = Inr (vals, m)
        \<longrightarrow> setitem h w self args
             = (None, self'\<lparr>self_array := Some (a\<lparr>avalues := vals, amask := m\<rparr>)\<rparr>, w'))"
  by (auto simp: setitem_def split: sum.splits prod.splits)

text \<open>
  On the view over the internal block, a 3 by 4 array of zeros: \<open>v[5] = 1\<close> raises
  \<open>IndexError\<close> and clears the cache, \<open>v[0] = 7\<close> fills the first row and keeps it.
\<close>

lemma setitem_block_view:
  "setitem example_host loaded_world loaded_view [PInt 5, PInt 1]
     = (Some IndexError, loaded_view\<lparr>self_array := None\<rparr>, loaded_world)
   \<and> setitem example_host loaded_world loaded_view [PInt 0, PInt 7]
     = (None,
        loaded_view\<lparr>self_array :=
          Some (example_array\<lparr>avalues := replicate 4 (FloatE (Finite 7))
                                            @ replicate 8 (FloatE (Finite 0))\<rparr>)\<rparr>,
        loaded_world)"
proof -
  have m: "make_array example_host loaded_world loaded_view
           = (Inr example_array, loaded_view, loaded_world)"
    by (simp add: make_array_def loaded_view_def loaded_world_def example_world_def
          example_array_def plain_array_def base_closed_def)
  have f: "ndarray_setitem example_host example_array [PInt 5, PInt 1] = Inl IndexError"
    by (simp add: example_host_def example_setitem_def example_array_def plain_array_def)
  have s: "ndarray_setitem example_host example_array [PInt 0, PInt 7]
           = Inr (replicate 4 (FloatE (Finite 7)) @ replicate 8 (FloatE (Finite 0)), Unmasked)"
    by (simp add: example_host_def example_setitem_def example_element_def example_array_def
          plain_array_def numeral_eq_Suc)
  from m f s show ?thesis by (simp add: setitem_def example_array_def plain_array_def)
qed

text \<open>
  After a failed assignment on a view over a block, the next access rebuilds the array from
  the block.
\<close>

lemma setitem_block_view_rebuilt:
  "make_array example_host loaded_world (loaded_view\<lparr>self_array := None\<rparr>)
     = (Inr (example_array\<lparr>ident := 11\<rparr>),
        loaded_view\<lparr>self_array := Some (example_array\<lparr>ident := 11\<rparr>)\<rparr>,
        loaded_world\<lparr>calls := [Fetch (InternalBlock 0) ''cached_data'',
                                 Fetch (InternalBlock 0) ''cached_data''],
                      next_id := 12\<rparr>)"
  by (simp add: make_array_def example_host_def example_world_def example_view_def
        example_array_def loaded_view_def loaded_world_def log_call_def fresh_def
        get_actual_shape_def star_def plain_array_def apply_mask_def itemsize_of_def Let_def)

text \<open>
  C7. The view over the inline literal \<open>[1, 2, 3]\<close> holds its array only in the cache; its
  source is the list. The assignment \<open>v[0] = "abc"\<close> raises \<open>ValueError\<close>, \<open>__setitem__\<close> clears
  the cache and raises the same exception, as the claim says. The next access does not
  rebuild the array: \<open>_make_array\<close> takes the list as the data and raises \<open>AttributeError\<close> at
  \<open>data.size\<close>, and the view stays without array.
\<close>

theorem setitem_inline_view_not_rebuilt:
  "init example_host example_world (Value (PList [PInt 1, PInt 2, PInt 3])) (PList [PInt 3])
       (Some (RDtype (DScalar Int64 (Some Little)))) (PInt 0) PNone (PStr ''A'') (MaskValue PNone)
     = (Inr inline_view, inline_world)
   \<and> setitem example_host inline_world inline_view [PInt 0, PStr ''abc'']
     = (Some (ValueError ''invalid literal for int() with base 10''),
        inline_view\<lparr>self_array := None\<rparr>, inline_world)
   \<and> make_array example_host inline_world (inline_view\<lparr>self_array := None\<rparr>)
     = (Inl (AttributeError ''size''), inline_view\<lparr>self_array := None\<rparr>, inline_world)"
  by (simp add: init_def setitem_def make_array_def example_host_def example_setitem_def
        example_element_def ascii_letter_def inline_view_def inline_world_def example_world_def
        fresh_def apply_mask_def inline_shape_mismatch_def shape_eq_def plain_array_def
        base_closed_def Let_def)

text \<open>
  A declared shape that starts with the wildcard is never equal to the shape of an array, so
  the second disjunct of the test in \<open>__init__\<close> holds whatever the trailing dimensions are.
\<close>

lemma shape_eq_star: "\<not> shape_eq ns (star # vs)"
  by (cases ns) (simp_all add: shape_eq_def star_def)

lemma init_wildcard_raises:
  assumes "inline_data_asarray h (PList xs) dtype = Inr built"
    and "apply_mask (snd (fresh w)) (built\<lparr>ident := next_id w, root_mmap := None,
            base_ident := next_id w\<rparr>) mask_spec = (Inr array, w2)"
  shows "init h w (Value (PList xs)) (PList (star # trailing)) dtype offset strides order mask_spec
         = (Inl (ValueError ''inline data doesn't match the given shape''), w2)"
  using assms by (simp add: init_def fresh_def inline_shape_mismatch_def shape_eq_star Let_def)

text \<open>
  C2. Construction over the inline literal \<open>[[1, 2], [3, 4]]\<close> with the declared shape
  \<open>["*", 2]\<close>: the materialized array has shape \<open>(2, 2)\<close>, its trailing dimensions equal the
  declared ones, and \<open>__init__\<close> raises the \<open>ValueError\<close> of a shape mismatch all the same.
\<close>

theorem init_wildcard_shape_raises:
  "inline_data_asarray example_host (PList [PList [PInt 1, PInt 2], PList [PInt 3, PInt 4]]) None
     = Inr (plain_array [2, 2] (DScalar Int64 (Some Little)) [IntE 1, IntE 2, IntE 3, IntE 4])
   \<and> shape_eq (tl [2, 2]) (tl [star, PInt 2])
   \<and> init example_host example_world
         (Value (PList [PList [PInt 1, PInt 2], PList [PInt 3, PInt 4]]))
         (PList [star, PInt 2]) None (PInt 0) PNone (PStr ''A'') (MaskValue PNone)
       = (Inl (ValueError ''inline data doesn't match the given shape''),
          example_world\<lparr>next_id := 11\<rparr>)"
  by (simp add: init_def example_host_def example_world_def fresh_def apply_mask_def
        inline_shape_mismatch_def shape_eq_def star_def plain_array_def Let_def)

section \<open>Properties of mask application\<close>


text \<open>
  The doubles nearest to \<open>1e-5\<close> and \<open>1e-8\<close>, and three comparisons within the tolerance.
\<close>

lemma tolerances: "round_double (1 / 100000) = Finite rtol" "round_double (1 / 100000000) = Finite atol"
  by code_simp+







section \<open>Properties of reading and writing nodes\<close>


text \<open>
  A node whose \<open>source\<close> and \<open>data\<close> are both truthy is refused, and no view is made.
\<close>

lemma from_tree_source_and_data:
  "py_truthy (dict_get kvs ''source'' PNone) \<Longrightarrow> py_truthy (dict_get kvs ''data'' PNone)
   \<Longrightarrow> from_tree sys h w (PDict kvs) array_mask
       = (Inl (ValueError ''Both source and data may not be provided at the same time''), w)"
  by (simp add: from_tree_def)

text \<open>
  C10. The node \<open>{data: [], datatype: float64, shape: [0]}\<close> has only \<open>data\<close>, but \<open>data\<close> is
  empty, hence falsy: \<open>from_tree\<close> takes the byte order of inline data and records the storage
  as inline, yet the view it makes has the source \<open>None\<close> and not the list, and no array.
  Materializing it (at once when the document does not load lazily) raises
  \<open>AttributeError\<close>.
\<close>

theorem from_tree_empty_data:
  "from_tree Little example_host example_world empty_inline_node None
     = (Inr \<lparr>self_source = Value PNone, self_array = None, self_mask = MaskValue PNone,
             self_shape = PList [PInt 0],
             self_dtype = Some (RDtype (DScalar Float64 (Some Little))),
             self_offset = PInt 0, self_strides = PNone, self_order = PStr ''A''\<rparr>,
        example_world\<lparr>calls := [SetArrayStorage ''inline'']\<rparr>)
   \<and> from_tree Little example_host eager_world empty_inline_node None
     = (Inl (AttributeError ''size''), eager_world\<lparr>calls := [SetArrayStorage ''inline'']\<rparr>)"
  by (simp add: from_tree_def empty_inline_node_def eager_world_def example_world_def dict_get_def
        init_def logged_def load_unless_lazy_def make_array_def datatype_names_def
        default_byteorder_def asdf_byteorder_to_numpy_byteorder_def np_dtype_scalar_def
        numpy_codes_def endian_of_char_def Let_def)

lemma forced_streamed:
  "all_array_storage c = Some ''streamed'' \<Longrightarrow>
   storage_type (effective_options c opts n) = ''streamed''"
  by (simp add: effective_options_def Let_def split: option.splits)

lemma emit_streamed:
  "storage_type opts = ''streamed'' \<Longrightarrow>
   emit_payload sys h w data opts =
     (case numpy_dtype_to_asdf_datatype sys (adtype data) True PNone of
        Inl e \<Rightarrow> (Inl e, w)
      | Inr (dtype, byteorder) \<Rightarrow>
          (case streamed_shape (array_shape data) of
             Inl e \<Rightarrow> (Inl e, w)
           | Inr rshape \<Rightarrow>
               (case set_streamed_block w (base_ident data) of
                  Inl e \<Rightarrow> (Inl e, w)
                | Inr w' \<Rightarrow>
                    (Inr \<lparr>p_shape = rshape, p_data = None, p_datatype = dtype,
                          p_source = Some (- 1), p_byteorder = Some byteorder,
                          p_offset = (if base_offset data > 0 then Some (base_offset data)
                                      else None),
                          p_strides = (if c_contiguous data then None else Some (astrides data)),
                          p_mask = (case amask data of
                                      MaskBits bs \<Rightarrow> if True \<in> set bs then Some bs else None
                                    | _ \<Rightarrow> None)\<rparr>,
                     w'))))"
  by (simp add: emit_payload_def Let_def split: sum.splits prod.splits)

lemma emit_streamed_result:
  assumes "storage_type opts = ''streamed''" "emit_payload sys h w data opts = (Inr r, w')"
  shows "p_source r = Some (- 1) \<and> p_shape r = star # tl (array_shape data)
         \<and> array_shape data \<noteq> []"
  using assms(2) unfolding emit_streamed [OF assms(1)]
  by (auto simp: streamed_shape_def split: sum.splits prod.splits list.splits)

lemma cfg_contiguous: "cfg (snd (contiguous_data h w obj)) = cfg w"
  by (simp add: contiguous_data_def fresh_def Let_def)

lemma to_tree_emit:
  "to_tree sys h w obj =
     emit_payload sys h
       (log_call (SetOptions (ident (fst (contiguous_data h w obj))))
          ((snd (contiguous_data h w obj))
             \<lparr>get_options := (get_options (snd (contiguous_data h w obj)))
                (ident (fst (contiguous_data h w obj)) :=
                   effective_options (cfg w)
                     (get_options (snd (contiguous_data h w obj))
                        (ident (fst (contiguous_data h w obj))))
                     (int (prod_list (ashape (fst (contiguous_data h w obj))))))\<rparr>))
       (fst (contiguous_data h w obj))
       (effective_options (cfg w)
          (get_options (snd (contiguous_data h w obj)) (ident (fst (contiguous_data h w obj))))
          (int (prod_list (ashape (fst (contiguous_data h w obj))))))"
  using cfg_contiguous [of h w obj]
  by (cases "contiguous_data h w obj") (simp add: to_tree_def Let_def)

lemma contiguous_data_same:
  "\<not> list_ex (\<lambda>stride. stride = 0) (astrides obj) \<Longrightarrow> base_forc obj \<Longrightarrow>
   contiguous_data h w obj = (obj, w\<lparr>next_id := Suc (Suc (next_id w))\<rparr>)"
  by (simp add: contiguous_data_def fresh_def Let_def)

lemma storage_kind_eq:
  "storage_kind h w obj =
     storage_type (effective_options (cfg w)
        (get_options (snd (contiguous_data h w obj)) (ident (fst (contiguous_data h w obj))))
        (int (prod_list (ashape (fst (contiguous_data h w obj))))))"
  using cfg_contiguous [of h w obj]
  by (cases "contiguous_data h w obj") (simp add: storage_kind_def)

text \<open>
  The storage kind is \<open>"streamed"\<close> when the configuration forces it, and when the options
  of the array say so and the configuration forces no other kind.
\<close>

lemma storage_kind_forced:
  "all_array_storage (cfg w) = Some ''streamed'' \<Longrightarrow> storage_kind h w obj = ''streamed''"
  by (simp add: storage_kind_eq forced_streamed)

lemma storage_kind_stored:
  "all_array_storage (cfg w) = None \<Longrightarrow> \<forall>i. storage_type (get_options w i) = ''streamed''
   \<Longrightarrow> storage_kind h w obj = ''streamed''"
  by (simp add: storage_kind_eq effective_options_def contiguous_data_def fresh_def Let_def
        split: option.splits)

text \<open>
  C8. When the storage kind of the serialization is \<open>"streamed"\<close>, every payload that
  \<open>to_tree\<close> returns has the source \<open>-1\<close> and a shape that starts with the wildcard, whatever
  the size of the array; and it does return one, with the trailing dimensions of the array,
  for an array of at least one dimension that needs no copy, whose element type encodes,
  in a document that has no other streamed block.
\<close>

theorem to_tree_streamed:
  "storage_kind h w obj = ''streamed'' \<longrightarrow>
     (\<forall>r w'. to_tree sys h w obj = (Inr r, w') \<longrightarrow>
        p_source r = Some (- 1) \<and> p_shape r \<noteq> [] \<and> hd (p_shape r) = star)
     \<and> (\<not> list_ex (\<lambda>stride. stride = 0) (astrides obj) \<and> base_forc obj \<and> ashape obj \<noteq> []
          \<and> (streamed_block w = None \<or> streamed_block w = Some (base_ident obj))
          \<and> numpy_dtype_to_asdf_datatype sys (adtype obj) True PNone = Inr (d, bo) \<longrightarrow>
          (\<exists>r w'. to_tree sys h w obj = (Inr r, w') \<and> p_source r = Some (- 1)
               \<and> p_shape r = star # tl (array_shape obj) \<and> p_datatype r = d
               \<and> p_byteorder r = Some bo))"
proof
  assume "storage_kind h w obj = ''streamed''"
  then have f: "storage_type (effective_options (cfg w)
        (get_options (snd (contiguous_data h w obj)) (ident (fst (contiguous_data h w obj))))
        (int (prod_list (ashape (fst (contiguous_data h w obj)))))) = ''streamed''"
    by (simp add: storage_kind_eq)
  have 1: "\<forall>r w'. to_tree sys h w obj = (Inr r, w') \<longrightarrow>
        p_source r = Some (- 1) \<and> p_shape r \<noteq> [] \<and> hd (p_shape r) = star"
  proof (intro allI impI)
    fix r w'
    assume t: "to_tree sys h w obj = (Inr r, w')"
    from emit_streamed_result [OF f t [unfolded to_tree_emit]]
    show "p_source r = Some (- 1) \<and> p_shape r \<noteq> [] \<and> hd (p_shape r) = star"
      by simp
  qed
  have 2: "\<not> list_ex (\<lambda>stride. stride = 0) (astrides obj) \<and> base_forc obj \<and> ashape obj \<noteq> []
          \<and> (streamed_block w = None \<or> streamed_block w = Some (base_ident obj))
          \<and> numpy_dtype_to_asdf_datatype sys (adtype obj) True PNone = Inr (d, bo) \<longrightarrow>
          (\<exists>r w'. to_tree sys h w obj = (Inr r, w') \<and> p_source r = Some (- 1)
               \<and> p_shape r = star # tl (array_shape obj) \<and> p_datatype r = d
               \<and> p_byteorder r = Some bo)"
  proof
    assume a: "\<not> list_ex (\<lambda>stride. stride = 0) (astrides obj) \<and> base_forc obj \<and> ashape obj \<noteq> []
          \<and> (streamed_block w = None \<or> streamed_block w = Some (base_ident obj))
          \<and> numpy_dtype_to_asdf_datatype sys (adtype obj) True PNone = Inr (d, bo)"
    then have "array_shape obj \<noteq> []" by (simp add: array_shape_def)
    then obtain x xs where s: "array_shape obj = x # xs" by (cases "array_shape obj") auto
    from a have c: "contiguous_data h w obj = (obj, w\<lparr>next_id := Suc (Suc (next_id w))\<rparr>)"
      by (simp add: contiguous_data_same)
    note f' = f [unfolded c fst_conv snd_conv]
    from a s show "\<exists>r w'. to_tree sys h w obj = (Inr r, w') \<and> p_source r = Some (- 1)
               \<and> p_shape r = star # tl (array_shape obj) \<and> p_datatype r = d
               \<and> p_byteorder r = Some bo"
      unfolding to_tree_emit c fst_conv snd_conv emit_streamed [OF f']
      by (auto simp: streamed_shape_def log_call_def set_streamed_block_def)
  qed
  from 1 2 show "(\<forall>r w'. to_tree sys h w obj = (Inr r, w') \<longrightarrow>
        p_source r = Some (- 1) \<and> p_shape r \<noteq> [] \<and> hd (p_shape r) = star)
     \<and> (\<not> list_ex (\<lambda>stride. stride = 0) (astrides obj) \<and> base_forc obj \<and> ashape obj \<noteq> []
          \<and> (streamed_block w = None \<or> streamed_block w = Some (base_ident obj))
          \<and> numpy_dtype_to_asdf_datatype sys (adtype obj) True PNone = Inr (d, bo) \<longrightarrow>
          (\<exists>r w'. to_tree sys h w obj = (Inr r, w') \<and> p_source r = Some (- 1)
               \<and> p_shape r = star # tl (array_shape obj) \<and> p_datatype r = d
               \<and> p_byteorder r = Some bo))"
    by blast
qed

theorem to_tree_streamed_witness:
  "storage_kind example_host streamed_world small_ints = ''streamed''
   \<and> fst (to_tree Little example_host streamed_world small_ints)
     = Inr \<lparr>p_shape = [star], p_data = None, p_datatype = PStr ''int64'', p_source = Some (- 1),
            p_byteorder = Some (PStr ''little''), p_offset = None, p_strides = None,
            p_mask = None\<rparr>"
proof -
  have k: "storage_kind example_host streamed_world small_ints = ''streamed''"
    by (rule storage_kind_forced) (simp add: streamed_world_def example_world_def)
  have e: "fst (to_tree Little example_host streamed_world small_ints)
     = Inr \<lparr>p_shape = [star], p_data = None, p_datatype = PStr ''int64'', p_source = Some (- 1),
            p_byteorder = Some (PStr ''little''), p_offset = None, p_strides = None,
            p_mask = None\<rparr>"
    by (simp add: to_tree_def contiguous_data_def emit_payload_def streamed_world_def
        example_world_def small_ints_def plain_array_def fresh_def effective_options_def
        streamed_shape_def array_shape_def set_streamed_block_def log_call_def Let_def
        datatype_names_def numpy_byteorder_to_asdf_byteorder_def order_char_def)
  from to_tree_streamed [of example_host streamed_world small_ints Little "PStr ''int64''"
          "PStr ''little''"] k e
  show ?thesis by simp
qed

section \<open>Properties of the validators\<close>


text \<open>
  C4, as stated, fails: on the value \<open>5\<close>, which is not array-like, \<open>validate_datatype\<close> yields
  nothing and raises \<open>ValidationError("Not an array")\<close>.
\<close>

theorem validate_datatype_raises_counterexample:
  "validate_datatype Little example_host (\<lambda>a b. True) (PStr ''float64'') (TreeValue (PInt 5))
     (PDict []) = ([], Some (ValidationError ''Not an array''))"
  by (simp add: validate_datatype_def in_datatype_def)

lemma get_ndim_not_array: "\<not> has_ndim c \<Longrightarrow> get_ndim h c = Inr None"
  by (cases c rule: has_ndim.cases) (auto simp: get_ndim_def)

lemma in_datatype_not_array:
  "\<not> has_datatype c \<Longrightarrow> in_datatype sys h c = Inl (ValidationError ''Not an array'')"
  by (cases c rule: has_datatype.cases) (auto simp: in_datatype_def)

text \<open>
  C4, amended. \<open>validate_ndim\<close> raises nothing of its own: once \<open>_get_ndim\<close> has returned (the
  count, or \<open>None\<close> for a value that is not array-like) it yields one diagnostic when the count
  differs from the expected one and none otherwise. \<open>validate_max_ndim\<close>, on a value with a
  count and a numeric bound, yields one diagnostic when the count exceeds the bound and none
  otherwise. \<open>validate_datatype\<close> raises \<open>ValidationError("Not an array")\<close> on a value that is
  not array-like.
\<close>

theorem validators_on_values:
  "(get_ndim h c = Inr n \<longrightarrow>
      validate_ndim h ndim c = (if ndim_differs n ndim then [WrongNumberOfDimensions] else [], None))
   \<and> (\<not> has_ndim c \<longrightarrow>
      validate_ndim h ndim c = (if ndim = PNone then [] else [WrongNumberOfDimensions], None))
   \<and> (get_ndim h c = Inr (Some k) \<and> num_value max_ndim = Some (Finite r) \<longrightarrow>
      validate_max_ndim h max_ndim c = (if of_int k > r then [TooManyDimensions] else [], None))
   \<and> (\<not> has_datatype c \<longrightarrow>
      validate_datatype sys h can_cast datatype c schema
        = ([], Some (ValidationError ''Not an array'')))"
  by (auto simp: validate_ndim_def validate_max_ndim_def validate_datatype_def ndim_exceeds_def
        ndim_differs_def get_ndim_not_array in_datatype_not_array)

theorem validators_on_values_witness:
  "get_ndim example_host (TreeValue (PDict [(''shape'', PList [PInt 3, PInt 4])])) = Inr (Some 2)
   \<and> validate_ndim example_host (PInt 3) (TreeValue (PDict [(''shape'', PList [PInt 3, PInt 4])]))
       = ([WrongNumberOfDimensions], None)
   \<and> \<not> has_ndim (TreeValue (PInt 5))
   \<and> validate_ndim example_host (PInt 3) (TreeValue (PInt 5)) = ([WrongNumberOfDimensions], None)
   \<and> validate_max_ndim example_host (PInt 1)
         (TreeValue (PDict [(''shape'', PList [PInt 3, PInt 4])])) = ([TooManyDimensions], None)
   \<and> \<not> has_datatype (TreeValue (PInt 5))
   \<and> validate_datatype Little example_host (\<lambda>a b. True) (PStr ''float64'') (TreeValue (PInt 5))
         (PDict []) = ([], Some (ValidationError ''Not an array''))"
proof -
  have g: "get_ndim example_host (TreeValue (PDict [(''shape'', PList [PInt 3, PInt 4])]))
           = Inr (Some 2)"
    by (simp add: get_ndim_def)
  have d: "ndim_differs (Some 2) (PInt 3)"
    by (simp add: ndim_differs_def py_eq.simps)
  from validators_on_values [of example_host
         "TreeValue (PDict [(''shape'', PList [PInt 3, PInt 4])])" "Some 2" "PInt 3" 2 "PInt 1" 1
         Little "\<lambda>a b. True" "PStr ''float64''" "PDict []"]
       validators_on_values [of example_host "TreeValue (PInt 5)" None "PInt 3" 2 "PInt 1" 1
         Little "\<lambda>a b. True" "PStr ''float64''" "PDict []"]
       g d
  show ?thesis by simp
qed

end
